theory Spec2Isabelle
  imports Main
begin

section \<open>Errors\<close>

text \<open>
  The Go code produces errors in two ways: \<^verbatim>\<open>status.Errorf(code, msg)\<close>, which carries a
  gRPC status code, and \<^verbatim>\<open>errors.Errorf(msg)\<close>, which carries a message and no code.
  The codes are those the orchestrator and the store use. An error of the store that is
  not one of these is opaque.
\<close>

datatype codes = Unknown | NotFound | Unimplemented

datatype error =
    Status codes string
  | Errorf string
  | StoreFailure string

text \<open>
  An error is classified when it carries a status code of its own. For an error without
  one, \<^verbatim>\<open>status.Code\<close> of the gRPC library answers \<^verbatim>\<open>codes.Unknown\<close>.
\<close>

fun is_classified :: "error \<Rightarrow> bool" where
  "is_classified (Status c m) = True"
| "is_classified (Errorf m) = False"
| "is_classified (StoreFailure m) = False"

fun status_Code :: "error \<Rightarrow> codes" where
  "status_Code (Status c m) = c"
| "status_Code (Errorf m) = Unknown"
| "status_Code (StoreFailure m) = Unknown"

section \<open>Task abstraction (package scheduler)\<close>

text \<open>
  The type tags and the data snapshots are declared in package \<^verbatim>\<open>models\<close>; their
  constants and fields are the ones the task code names.
\<close>

datatype ScheduledTaskType =
  ScheduledPrintTask | ScheduledMySQLBackupTask | ScheduledMongoBackupTask

record PrintTaskData =
  Message :: string

record MySQLBackupTaskData =
  mysql_ServiceID :: string
  mysql_LocationID :: string
  mysql_Name :: string
  mysql_Description :: string

record MongoBackupTaskData =
  mongo_ServiceID :: string
  mongo_LocationID :: string
  mongo_Name :: string
  mongo_Description :: string

text \<open>
  \<^verbatim>\<open>models.ScheduledTaskData\<close> has one pointer field per task variant; a nil pointer is
  \<open>None\<close>.
\<close>

record ScheduledTaskData =
  Print :: "PrintTaskData option"
  MySQLBackupTask :: "MySQLBackupTaskData option"
  MongoBackupTask :: "MongoBackupTaskData option"

text \<open>
  The collaborator \<^verbatim>\<open>backupsLogicService\<close> is an interface with the single method
  \<^verbatim>\<open>PerformBackup(ctx, serviceID, locationID, name)\<close>.
\<close>

type_synonym backupsLogicService = "string \<Rightarrow> string \<Rightarrow> string \<Rightarrow> error + string"

record common =
  common_id :: string

record printTask =
  print_common :: common
  print_Message :: string

record mySQLBackupTask =
  mysqlt_common :: common
  mysqlt_backupsLogicService :: backupsLogicService
  mysqlt_ServiceID :: string
  mysqlt_LocationID :: string
  mysqlt_Name :: string
  mysqlt_Description :: string

record mongoBackupTask =
  mongot_common :: common
  mongot_backupsLogicService :: backupsLogicService
  mongot_ServiceID :: string
  mongot_LocationID :: string
  mongot_Name :: string
  mongot_Description :: string

text \<open>The interface \<^verbatim>\<open>Task\<close> is implemented by exactly these three structs.\<close>

datatype Task =
    Task_print printTask
  | Task_mysql mySQLBackupTask
  | Task_mongo mongoBackupTask

definition common_ID :: "common \<Rightarrow> string" where
  "common_ID c = common_id c"

definition common_SetID :: "string \<Rightarrow> common \<Rightarrow> common" where
  "common_SetID i c = c\<lparr>common_id := i\<rparr>"

text \<open>Every constructor allocates a fresh \<^verbatim>\<open>common\<close>, whose id is the empty string.\<close>

definition NewPrintTask :: "string \<Rightarrow> Task" where
  "NewPrintTask message =
     Task_print \<lparr>print_common = \<lparr>common_id = []\<rparr>, print_Message = message\<rparr>"

definition NewMySQLBackupTask ::
  "backupsLogicService \<Rightarrow> string \<Rightarrow> string \<Rightarrow> string \<Rightarrow> string \<Rightarrow> Task" where
  "NewMySQLBackupTask bls serviceID locationID name description =
     Task_mysql \<lparr>mysqlt_common = \<lparr>common_id = []\<rparr>,
                 mysqlt_backupsLogicService = bls,
                 mysqlt_ServiceID = serviceID,
                 mysqlt_LocationID = locationID,
                 mysqlt_Name = name,
                 mysqlt_Description = description\<rparr>"

definition NewMongoBackupTask ::
  "backupsLogicService \<Rightarrow> string \<Rightarrow> string \<Rightarrow> string \<Rightarrow> string \<Rightarrow> Task" where
  "NewMongoBackupTask bls serviceID locationID name description =
     Task_mongo \<lparr>mongot_common = \<lparr>common_id = []\<rparr>,
                 mongot_backupsLogicService = bls,
                 mongot_ServiceID = serviceID,
                 mongot_LocationID = locationID,
                 mongot_Name = name,
                 mongot_Description = description\<rparr>"

text \<open>
  The methods take the receiver and return the receiver as the call leaves it, next to the
  value returned. \<^verbatim>\<open>ID\<close> and \<^verbatim>\<open>SetID\<close> are promoted from the embedded \<^verbatim>\<open>common\<close>.
\<close>

fun ID :: "Task \<Rightarrow> string" where
  "ID (Task_print j) = common_ID (print_common j)"
| "ID (Task_mysql t) = common_ID (mysqlt_common t)"
| "ID (Task_mongo t) = common_ID (mongot_common t)"

fun SetID :: "string \<Rightarrow> Task \<Rightarrow> Task" where
  "SetID i (Task_print j) = Task_print (j\<lparr>print_common := common_SetID i (print_common j)\<rparr>)"
| "SetID i (Task_mysql t) = Task_mysql (t\<lparr>mysqlt_common := common_SetID i (mysqlt_common t)\<rparr>)"
| "SetID i (Task_mongo t) = Task_mongo (t\<lparr>mongot_common := common_SetID i (mongot_common t)\<rparr>)"

fun Type :: "Task \<Rightarrow> ScheduledTaskType \<times> Task" where
  "Type (Task_print j) = (ScheduledPrintTask, Task_print j)"
| "Type (Task_mysql t) = (ScheduledMySQLBackupTask, Task_mysql t)"
| "Type (Task_mongo t) = (ScheduledMongoBackupTask, Task_mongo t)"

fun Data :: "Task \<Rightarrow> ScheduledTaskData \<times> Task" where
  "Data (Task_print j) =
     (\<lparr>Print = Some \<lparr>Message = print_Message j\<rparr>,
       MySQLBackupTask = None, MongoBackupTask = None\<rparr>, Task_print j)"
| "Data (Task_mysql t) =
     (\<lparr>Print = None,
       MySQLBackupTask = Some \<lparr>mysql_ServiceID = mysqlt_ServiceID t,
                                mysql_LocationID = mysqlt_LocationID t,
                                mysql_Name = mysqlt_Name t,
                                mysql_Description = mysqlt_Description t\<rparr>,
       MongoBackupTask = None\<rparr>, Task_mysql t)"
| "Data (Task_mongo t) =
     (\<lparr>Print = None, MySQLBackupTask = None,
       MongoBackupTask = Some \<lparr>mongo_ServiceID = mongot_ServiceID t,
                                mongo_LocationID = mongot_LocationID t,
                                mongo_Name = mongot_Name t,
                                mongo_Description = mongot_Description t\<rparr>\<rparr>, Task_mongo t)"

text \<open>
  Modelled from the spec: the type-to-constructor registry of the Scheduler, which is not
  among the sources. The spec says that reconstruction after a restart "uses a
  type-tag\<rightarrow>constructor registry fed by the persisted data snapshot", and that the
  Scheduler sets the id of the task: the registry picks the constructor by the type tag,
  feeds it the fields of the snapshot, and fails when the snapshot has no entry for the tag.
\<close>

fun reconstruct :: "backupsLogicService \<Rightarrow> ScheduledTaskType \<Rightarrow> ScheduledTaskData \<Rightarrow> Task option" where
  "reconstruct bls ScheduledPrintTask d =
     (case Print d of None \<Rightarrow> None | Some p \<Rightarrow> Some (NewPrintTask (Message p)))"
| "reconstruct bls ScheduledMySQLBackupTask d =
     (case MySQLBackupTask d of None \<Rightarrow> None
      | Some p \<Rightarrow> Some (NewMySQLBackupTask bls (mysql_ServiceID p) (mysql_LocationID p)
                         (mysql_Name p) (mysql_Description p)))"
| "reconstruct bls ScheduledMongoBackupTask d =
     (case MongoBackupTask d of None \<Rightarrow> None
      | Some p \<Rightarrow> Some (NewMongoBackupTask bls (mongo_ServiceID p) (mongo_LocationID p)
                         (mongo_Name p) (mongo_Description p)))"

text \<open>A caller that only observes a task calls \<^verbatim>\<open>Data\<close> and \<^verbatim>\<open>Type\<close> in some order.\<close>

datatype observation = CallData | CallType

fun observe :: "observation \<Rightarrow> Task \<Rightarrow> Task" where
  "observe CallData t = snd (Data t)"
| "observe CallType t = snd (Type t)"

fun observe_all :: "observation list \<Rightarrow> Task \<Rightarrow> Task" where
  "observe_all [] t = t"
| "observe_all (c # cs) t = observe_all cs (observe c t)"

section \<open>Data model of the backup orchestrator (package models)\<close>

text \<open>
  Modelled from the spec: package \<^verbatim>\<open>models\<close> is not among the sources; only its callers
  are. Its types carry the fields the spec's data model lists and the orchestrator reads
  or writes. \<^verbatim>\<open>ServiceType\<close> is a string type in Go (the orchestrator converts it with
  \<^verbatim>\<open>string(svc.ServiceType)\<close> and its \<^verbatim>\<open>switch\<close> has a \<^verbatim>\<open>default\<close> branch), and the spec
  gives \<^verbatim>\<open>"mysql"\<close> as the vendor of a MySQL backup; the other constants are the names the
  spec lists, in lower case.
\<close>

type_synonym ServiceType = string

definition MySQLServiceType :: ServiceType where
  "MySQLServiceType = ''mysql''"

definition PostgreSQLServiceType :: ServiceType where
  "PostgreSQLServiceType = ''postgresql''"

definition MongoDBServiceType :: ServiceType where
  "MongoDBServiceType = ''mongodb''"

definition ProxySQLServiceType :: ServiceType where
  "ProxySQLServiceType = ''proxysql''"

definition HAProxyServiceType :: ServiceType where
  "HAProxyServiceType = ''haproxy''"

definition ExternalServiceType :: ServiceType where
  "ExternalServiceType = ''external''"

record Service =
  ServiceID :: string
  ServiceType :: ServiceType

text \<open>
  Modelled from the spec: the server, client and object-storage configurations of a
  location, whose declarations are missing. The orchestrator only copies them (each is a
  pointer, \<open>None\<close> when nil).
\<close>

type_synonym PMMServerLocationConfig = string
type_synonym PMMClientLocationConfig = string
type_synonym S3LocationConfig = string

record BackupLocation =
  location_ID :: string
  PMMServerConfig :: "PMMServerLocationConfig option"
  PMMClientConfig :: "PMMClientLocationConfig option"
  S3Config :: "S3LocationConfig option"

record BackupLocationConfig =
  cfg_PMMServerConfig :: "PMMServerLocationConfig option"
  cfg_PMMClientConfig :: "PMMClientLocationConfig option"
  cfg_S3Config :: "S3LocationConfig option"

text \<open>
  Modelled from the spec: the rows of the store, whose declarations are missing. The data
  model is logical or physical; the status of an artifact is pending, running, success or
  failed; the status of a restore is in-progress, success or failed. The spec gives a
  JobResult a status without naming its values, and the orchestrator never sets it: the
  field is left out.
\<close>

datatype DataModel = PhysicalDataModel | LogicalDataModel

datatype BackupStatus =
  PendingBackupStatus | RunningBackupStatus | SuccessBackupStatus | FailedBackupStatus

record Artifact =
  artifact_ID :: string
  artifact_Name :: string
  artifact_Vendor :: string
  artifact_LocationID :: string
  artifact_ServiceID :: string
  artifact_DataModel :: DataModel
  artifact_Status :: BackupStatus

record CreateArtifactParams =
  cap_Name :: string
  cap_Vendor :: string
  cap_LocationID :: string
  cap_ServiceID :: string
  cap_DataModel :: DataModel
  cap_Status :: BackupStatus

text \<open>
  Modelled from the spec: the DB-connection configuration of a service, opaque to the
  orchestrator, and an agent with the service it runs jobs for.
\<close>

type_synonym DBConfig = string

record Agent =
  AgentID :: string
  agent_ServiceID :: string

datatype JobType = MySQLBackupJob | MySQLRestoreBackupJob

record MySQLBackupJobResult =
  ArtifactID :: string

record MySQLRestoreBackupJobResult =
  RestoreID :: string

record JobResultData =
  MySQLBackup :: "MySQLBackupJobResult option"
  MySQLRestoreBackup :: "MySQLRestoreBackupJobResult option"

record JobResult =
  job_ID :: string
  PMMAgentID :: string
  job_Type :: JobType
  job_Result :: JobResultData

datatype RestoreStatus =
  InProgressRestoreStatus | SuccessRestoreStatus | FailedRestoreStatus

record RestoreHistoryItem =
  restore_ID :: string
  restore_ArtifactID :: string
  restore_ServiceID :: string
  restore_Status :: RestoreStatus

record CreateRestoreHistoryItemParams =
  crp_ArtifactID :: string
  crp_ServiceID :: string
  crp_Status :: RestoreStatus

section \<open>The transactional store\<close>

text \<open>
  Modelled from the spec: the store (\<^verbatim>\<open>reform\<close> and the query functions of package
  \<^verbatim>\<open>models\<close>) is not among the sources. The spec's \<^verbatim>\<open>TransactionalStore\<close> finds a
  service, location, artifact or the agents of a service by id, creates Artifact,
  JobResult and RestoreHistoryItem rows, and commits or rolls back atomically; a missing
  service, location or artifact is \<^verbatim>\<open>NotFound\<close>, and any operation can fail with a store
  error. Tables are lists of rows in insertion order. A \<open>store_env\<close> fixes what the store
  does beyond its tables: which operations fail, and the identifiers it hands out.
\<close>

record tables =
  services :: "Service list"
  locations :: "BackupLocation list"
  artifacts :: "Artifact list"
  db_configs :: "(string \<times> DBConfig) list"
  pmm_agents :: "Agent list"
  job_results :: "JobResult list"
  restore_history :: "RestoreHistoryItem list"

datatype store_op =
    OpBegin | OpCommit
  | OpFindServiceByID | OpFindBackupLocationByID | OpFindArtifactByID
  | OpFindDBConfigForService | OpFindPMMAgentsForService
  | OpCreateArtifact | OpCreateJobResult | OpCreateRestoreHistoryItem

record store_env =
  fault :: "store_op \<Rightarrow> error option"
  uuid :: "nat \<Rightarrow> string"

text \<open>
  Modelled from the spec: \<^verbatim>\<open>models.FindServiceByID\<close>, which is missing: the service
  with the id, or \<^verbatim>\<open>NotFound\<close> when there is none.
\<close>

definition FindServiceByID :: "store_env \<Rightarrow> tables \<Rightarrow> string \<Rightarrow> error + Service" where
  "FindServiceByID q tx i =
     (case fault q OpFindServiceByID of
        Some err \<Rightarrow> Inl err
      | None \<Rightarrow>
          (case find (\<lambda>s. ServiceID s = i) (services tx) of
             None \<Rightarrow> Inl (Status NotFound (''Service with ID '' @ i @ '' not found.''))
           | Some s \<Rightarrow> Inr s))"

text \<open>
  Modelled from the spec: \<^verbatim>\<open>models.FindBackupLocationByID\<close>, which is missing: the
  location with the id, or \<^verbatim>\<open>NotFound\<close> when there is none.
\<close>

definition FindBackupLocationByID :: "store_env \<Rightarrow> tables \<Rightarrow> string \<Rightarrow> error + BackupLocation" where
  "FindBackupLocationByID q tx i =
     (case fault q OpFindBackupLocationByID of
        Some err \<Rightarrow> Inl err
      | None \<Rightarrow>
          (case find (\<lambda>l. location_ID l = i) (locations tx) of
             None \<Rightarrow> Inl (Status NotFound (''Backup location with ID '' @ i @ '' not found.''))
           | Some l \<Rightarrow> Inr l))"

text \<open>
  Modelled from the spec: \<^verbatim>\<open>models.FindArtifactByID\<close>, which is missing: the artifact
  with the id, or \<^verbatim>\<open>NotFound\<close> when there is none.
\<close>

definition FindArtifactByID :: "store_env \<Rightarrow> tables \<Rightarrow> string \<Rightarrow> error + Artifact" where
  "FindArtifactByID q tx i =
     (case fault q OpFindArtifactByID of
        Some err \<Rightarrow> Inl err
      | None \<Rightarrow>
          (case find (\<lambda>a. artifact_ID a = i) (artifacts tx) of
             None \<Rightarrow> Inl (Status NotFound (''Artifact with ID '' @ i @ '' not found.''))
           | Some a \<Rightarrow> Inr a))"

text \<open>
  Modelled from the spec: \<^verbatim>\<open>models.FindDBConfigForService\<close>, which is missing: the DB
  configuration of the service, or an error of the store when it has none (the spec names
  no kind for it).
\<close>

definition FindDBConfigForService :: "store_env \<Rightarrow> tables \<Rightarrow> string \<Rightarrow> error + DBConfig" where
  "FindDBConfigForService q tx i =
     (case fault q OpFindDBConfigForService of
        Some err \<Rightarrow> Inl err
      | None \<Rightarrow>
          (case map_of (db_configs tx) i of
             None \<Rightarrow> Inl (StoreFailure (''no DB config for service '' @ i))
           | Some c \<Rightarrow> Inr c))"

text \<open>
  Modelled from the spec: \<^verbatim>\<open>models.FindPMMAgentsForService\<close>, which is missing: the
  agents that run jobs for the service, in the order of the table; none is not an error.
\<close>

definition FindPMMAgentsForService :: "store_env \<Rightarrow> tables \<Rightarrow> string \<Rightarrow> error + Agent list" where
  "FindPMMAgentsForService q tx i =
     (case fault q OpFindPMMAgentsForService of
        Some err \<Rightarrow> Inl err
      | None \<Rightarrow> Inr (filter (\<lambda>a. agent_ServiceID a = i) (pmm_agents tx)))"

text \<open>
  Modelled from the spec: \<^verbatim>\<open>models.CreateArtifact\<close>, which is missing: it appends one
  row with the fields given and a new id, and returns the row. An id is never empty (the
  spec's properties ask for a non-empty id): it is the name of the table followed by what
  the store hands out for the row.
\<close>

definition CreateArtifact :: "store_env \<Rightarrow> tables \<Rightarrow> CreateArtifactParams \<Rightarrow> error + Artifact \<times> tables" where
  "CreateArtifact q tx params =
     (case fault q OpCreateArtifact of
        Some err \<Rightarrow> Inl err
      | None \<Rightarrow>
          (let row = \<lparr>artifact_ID = ''/artifact_id/'' @ uuid q (length (artifacts tx)),
                      artifact_Name = cap_Name params,
                      artifact_Vendor = cap_Vendor params,
                      artifact_LocationID = cap_LocationID params,
                      artifact_ServiceID = cap_ServiceID params,
                      artifact_DataModel = cap_DataModel params,
                      artifact_Status = cap_Status params\<rparr>
           in Inr (row, tx\<lparr>artifacts := artifacts tx @ [row]\<rparr>)))"

text \<open>
  Modelled from the spec: \<^verbatim>\<open>models.CreateJobResult\<close>, which is missing: it appends one
  job result for the agent, with the type and the payload given and a new id, and returns
  the row.
\<close>

definition CreateJobResult ::
  "store_env \<Rightarrow> tables \<Rightarrow> string \<Rightarrow> JobType \<Rightarrow> JobResultData \<Rightarrow> error + JobResult \<times> tables" where
  "CreateJobResult q tx pmmAgentID jobType result =
     (case fault q OpCreateJobResult of
        Some err \<Rightarrow> Inl err
      | None \<Rightarrow>
          (let row = \<lparr>job_ID = ''/job_id/'' @ uuid q (length (job_results tx)),
                      PMMAgentID = pmmAgentID,
                      job_Type = jobType,
                      job_Result = result\<rparr>
           in Inr (row, tx\<lparr>job_results := job_results tx @ [row]\<rparr>)))"

text \<open>
  Modelled from the spec: \<^verbatim>\<open>models.CreateRestoreHistoryItem\<close>, which is missing: it
  appends one restore history item with the fields given and a new id, and returns the row.
\<close>

definition CreateRestoreHistoryItem ::
  "store_env \<Rightarrow> tables \<Rightarrow> CreateRestoreHistoryItemParams \<Rightarrow> error + RestoreHistoryItem \<times> tables" where
  "CreateRestoreHistoryItem q tx params =
     (case fault q OpCreateRestoreHistoryItem of
        Some err \<Rightarrow> Inl err
      | None \<Rightarrow>
          (let row = \<lparr>restore_ID = ''/restore_id/'' @ uuid q (length (restore_history tx)),
                      restore_ArtifactID = crp_ArtifactID params,
                      restore_ServiceID = crp_ServiceID params,
                      restore_Status = crp_Status params\<rparr>
           in Inr (row, tx\<lparr>restore_history := restore_history tx @ [row]\<rparr>)))"

text \<open>
  Modelled from the spec: \<^verbatim>\<open>InTransactionContext\<close> of the \<^verbatim>\<open>reform\<close> library, which is
  missing. It begins a transaction, runs the function on it, and commits when
  the function returns no error; when beginning, the function or the commit fails, the
  transaction is rolled back and the tables are what they were.
\<close>

definition InTransactionContext ::
  "store_env \<Rightarrow> tables \<Rightarrow> (tables \<Rightarrow> error + 'a \<times> tables) \<Rightarrow> (error + 'a) \<times> tables" where
  "InTransactionContext q d f =
     (case fault q OpBegin of
        Some err \<Rightarrow> (Inl err, d)
      | None \<Rightarrow>
          (case f d of
             Inl err \<Rightarrow> (Inl err, d)
           | Inr (r, tx) \<Rightarrow>
               (case fault q OpCommit of
                  Some err \<Rightarrow> (Inl err, d)
                | None \<Rightarrow> (Inr r, tx))))"

section \<open>The dispatch collaborator\<close>

text \<open>
  \<^verbatim>\<open>jobsService\<close> is an interface of the package, implemented elsewhere. A call is
  recorded with its arguments, in the order of the two methods the orchestrator calls; the
  collaborator answers each call with an error or with none.
\<close>

datatype job_call =
    StartMySQLBackupJob string string int string DBConfig BackupLocationConfig
  | StartMySQLRestoreBackupJob string string string int string BackupLocationConfig

type_synonym jobsService = "job_call \<Rightarrow> error option"

section \<open>The backup orchestrator (package backup)\<close>

record BackupsService =
  db :: store_env
  jobsService :: jobsService

record StartBackupRequest =
  sb_ServiceId :: string
  sb_LocationId :: string
  sb_Name :: string

record StartBackupResponse =
  ArtifactId :: string

record RestoreBackupRequest =
  rb_ServiceId :: string
  rb_ArtifactId :: string

record RestoreBackupResponse =
  RestoreId :: string

text \<open>
  What a call can change: the tables of the store, and the calls the dispatch
  collaborator has received so far.
\<close>

type_synonym world = "tables \<times> job_call list"

definition prepareBackupJob ::
  "BackupsService \<Rightarrow> tables \<Rightarrow> Service \<Rightarrow> string \<Rightarrow> JobType \<Rightarrow> error + (JobResult \<times> DBConfig) \<times> tables" where
  "prepareBackupJob s q service artifactID jobType =
     (case FindDBConfigForService (db s) q (ServiceID service) of
        Inl err \<Rightarrow> Inl err
      | Inr dbConfig \<Rightarrow>
     (case FindPMMAgentsForService (db s) q (ServiceID service) of
        Inl err \<Rightarrow> Inl err
      | Inr pmmAgents \<Rightarrow>
     if length pmmAgents = 0 then Inl (Errorf ''pmmAgent not found for service'')
     else
     (case CreateJobResult (db s) q (AgentID (pmmAgents ! 0)) jobType
             \<lparr>MySQLBackup = Some \<lparr>ArtifactID = artifactID\<rparr>, MySQLRestoreBackup = None\<rparr> of
        Inl err \<Rightarrow> Inl err
      | Inr (res, q') \<Rightarrow> Inr ((res, dbConfig), q'))))"

text \<open>
  The function \<^verbatim>\<open>StartBackup\<close> runs in its transaction. It assigns the variables
  \<^verbatim>\<open>svc\<close>, \<^verbatim>\<open>location\<close>, \<^verbatim>\<open>artifact\<close>, \<^verbatim>\<open>job\<close> and \<^verbatim>\<open>config\<close> of the enclosing
  function, which are its result here.
\<close>

definition StartBackup_tx ::
  "BackupsService \<Rightarrow> StartBackupRequest \<Rightarrow> tables \<Rightarrow>
   error + (Service \<times> BackupLocation \<times> Artifact \<times> JobResult \<times> DBConfig) \<times> tables" where
  "StartBackup_tx s req tx =
     (case FindServiceByID (db s) tx (sb_ServiceId req) of
        Inl err \<Rightarrow> Inl err
      | Inr svc \<Rightarrow>
     (case FindBackupLocationByID (db s) tx (sb_LocationId req) of
        Inl err \<Rightarrow> Inl err
      | Inr location \<Rightarrow>
     (case (if ServiceType svc = MySQLServiceType then Inr PhysicalDataModel
            else if ServiceType svc = PostgreSQLServiceType
                  \<or> ServiceType svc = MongoDBServiceType
                  \<or> ServiceType svc = ProxySQLServiceType
                  \<or> ServiceType svc = HAProxyServiceType
                  \<or> ServiceType svc = ExternalServiceType
            then Inl (Status Unimplemented (''unimplemented service: '' @ ServiceType svc))
            else Inl (Status Unknown (''unknown service: '' @ ServiceType svc))) of
        Inl err \<Rightarrow> Inl err
      | Inr dataModel \<Rightarrow>
     (case CreateArtifact (db s) tx
             \<lparr>cap_Name = sb_Name req,
              cap_Vendor = ServiceType svc,
              cap_LocationID = location_ID location,
              cap_ServiceID = ServiceID svc,
              cap_DataModel = dataModel,
              cap_Status = PendingBackupStatus\<rparr> of
        Inl err \<Rightarrow> Inl err
      | Inr (artifact, tx1) \<Rightarrow>
     (case prepareBackupJob s tx1 svc (artifact_ID artifact) MySQLBackupJob of
        Inl err \<Rightarrow> Inl err
      | Inr ((job, config), tx2) \<Rightarrow> Inr ((svc, location, artifact, job, config), tx2))))))"

definition StartBackup ::
  "BackupsService \<Rightarrow> StartBackupRequest \<Rightarrow> world \<Rightarrow> (error + StartBackupResponse) \<times> world" where
  "StartBackup s req w =
     (case w of (d, calls) \<Rightarrow>
     (case InTransactionContext (db s) d (StartBackup_tx s req) of
        (Inl errTX, d') \<Rightarrow> (Inl errTX, (d', calls))
      | (Inr (svc, location, artifact, job, config), d') \<Rightarrow>
          (let locationConfig = \<lparr>cfg_PMMServerConfig = PMMServerConfig location,
                                 cfg_PMMClientConfig = PMMClientConfig location,
                                 cfg_S3Config = S3Config location\<rparr>
           in if ServiceType svc = MySQLServiceType then
                (let call = StartMySQLBackupJob (job_ID job) (PMMAgentID job) 0 (sb_Name req)
                              config locationConfig
                 in (case jobsService s call of
                       Some err \<Rightarrow> (Inl err, (d', calls @ [call]))
                     | None \<Rightarrow> (Inr \<lparr>ArtifactId = artifact_ID artifact\<rparr>, (d', calls @ [call]))))
              else if ServiceType svc = PostgreSQLServiceType
                    \<or> ServiceType svc = MongoDBServiceType
                    \<or> ServiceType svc = ProxySQLServiceType
                    \<or> ServiceType svc = HAProxyServiceType
                    \<or> ServiceType svc = ExternalServiceType
              then (Inl (Status Unimplemented (''unimplemented service: '' @ ServiceType svc)),
                    (d', calls))
              else (Inl (Status Unknown (''unknown service: '' @ ServiceType svc)), (d', calls)))))"

record prepareRestoreJobParams =
  prp_AgentID :: string
  prp_ArtifactName :: string
  prp_Location :: BackupLocation
  prp_ServiceType :: ServiceType

definition prepareRestoreJob ::
  "BackupsService \<Rightarrow> tables \<Rightarrow> string \<Rightarrow> string \<Rightarrow> error + prepareRestoreJobParams" where
  "prepareRestoreJob s q serviceID artifactID =
     (case FindServiceByID (db s) q serviceID of
        Inl err \<Rightarrow> Inl err
      | Inr service \<Rightarrow>
     (case FindArtifactByID (db s) q artifactID of
        Inl err \<Rightarrow> Inl err
      | Inr artifact \<Rightarrow>
     (case FindBackupLocationByID (db s) q (artifact_LocationID artifact) of
        Inl err \<Rightarrow> Inl err
      | Inr location \<Rightarrow>
     (case FindPMMAgentsForService (db s) q serviceID of
        Inl err \<Rightarrow> Inl err
      | Inr agents \<Rightarrow>
     if length agents = 0
     then Inl (Errorf (''cannot find pmm agent for service '' @ serviceID))
     else Inr \<lparr>prp_AgentID = AgentID (agents ! 0),
               prp_ArtifactName = artifact_Name artifact,
               prp_Location = location,
               prp_ServiceType = ServiceType service\<rparr>))))"

definition startRestoreJob ::
  "BackupsService \<Rightarrow> string \<Rightarrow> string \<Rightarrow> prepareRestoreJobParams \<Rightarrow> job_call list \<Rightarrow>
   error option \<times> job_call list" where
  "startRestoreJob s jobID serviceID params calls =
     (let locationConfig = \<lparr>cfg_PMMServerConfig = PMMServerConfig (prp_Location params),
                            cfg_PMMClientConfig = PMMClientConfig (prp_Location params),
                            cfg_S3Config = S3Config (prp_Location params)\<rparr>
      in if prp_ServiceType params = MySQLServiceType then
           (let call = StartMySQLRestoreBackupJob jobID (prp_AgentID params) serviceID 0
                         (prp_ArtifactName params) locationConfig
            in (case jobsService s call of
                  Some err \<Rightarrow> (Some err, calls @ [call])
                | None \<Rightarrow> (None, calls @ [call])))
         else if prp_ServiceType params = PostgreSQLServiceType
               \<or> prp_ServiceType params = MongoDBServiceType
               \<or> prp_ServiceType params = ProxySQLServiceType
               \<or> prp_ServiceType params = HAProxyServiceType
               \<or> prp_ServiceType params = ExternalServiceType
         then (Some (Status Unimplemented
                       (''unimplemented service: '' @ prp_ServiceType params)), calls)
         else (Some (Status Unknown (''unknown service: '' @ prp_ServiceType params)), calls))"

text \<open>
  The function \<^verbatim>\<open>RestoreBackup\<close> runs in its transaction; it assigns \<^verbatim>\<open>params\<close>,
  \<^verbatim>\<open>jobID\<close> and \<^verbatim>\<open>restoreID\<close> of the enclosing function.
\<close>

definition RestoreBackup_tx ::
  "BackupsService \<Rightarrow> RestoreBackupRequest \<Rightarrow> tables \<Rightarrow>
   error + (prepareRestoreJobParams \<times> string \<times> string) \<times> tables" where
  "RestoreBackup_tx s req tx =
     (case prepareRestoreJob s tx (rb_ServiceId req) (rb_ArtifactId req) of
        Inl err \<Rightarrow> Inl err
      | Inr params \<Rightarrow>
     (case CreateRestoreHistoryItem (db s) tx
             \<lparr>crp_ArtifactID = rb_ArtifactId req,
              crp_ServiceID = rb_ServiceId req,
              crp_Status = InProgressRestoreStatus\<rparr> of
        Inl err \<Rightarrow> Inl err
      | Inr (restore, tx1) \<Rightarrow>
     (case CreateJobResult (db s) tx1 (prp_AgentID params) MySQLRestoreBackupJob
             \<lparr>MySQLBackup = None,
              MySQLRestoreBackup = Some \<lparr>RestoreID = restore_ID restore\<rparr>\<rparr> of
        Inl err \<Rightarrow> Inl err
      | Inr (job, tx2) \<Rightarrow> Inr ((params, job_ID job, restore_ID restore), tx2))))"

definition RestoreBackup ::
  "BackupsService \<Rightarrow> RestoreBackupRequest \<Rightarrow> world \<Rightarrow> (error + RestoreBackupResponse) \<times> world" where
  "RestoreBackup s req w =
     (case w of (d, calls) \<Rightarrow>
     (case InTransactionContext (db s) d (RestoreBackup_tx s req) of
        (Inl err, d') \<Rightarrow> (Inl err, (d', calls))
      | (Inr (params, jobID, restoreID), d') \<Rightarrow>
          (case startRestoreJob s jobID (rb_ServiceId req) params calls of
             (Some err, calls') \<Rightarrow> (Inl err, (d', calls'))
           | (None, calls') \<Rightarrow> (Inr \<lparr>RestoreId = restoreID\<rparr>, (d', calls')))))"

text \<open>
  Both functions that dispatch build the \<^verbatim>\<open>BackupLocationConfig\<close> of a location in the
  same way; the theorems write it so.
\<close>

abbreviation locationConfig_of :: "BackupLocation \<Rightarrow> BackupLocationConfig" where
  "locationConfig_of location \<equiv>
     \<lparr>cfg_PMMServerConfig = PMMServerConfig location,
      cfg_PMMClientConfig = PMMClientConfig location,
      cfg_S3Config = S3Config location\<rparr>"

section \<open>A concrete store\<close>

text \<open>
  A small store on which the theorems below are instantiated: two MySQL services, of which
  only the first has agents, a PostgreSQL service with an agent, a service of a type the
  code does not know with an agent, one location, and one artifact that was taken from a
  service that no longer exists.
\<close>

definition example_db :: tables where
  "example_db =
     \<lparr>services =
        [\<lparr>ServiceID = ''svc-mysql-1'', ServiceType = MySQLServiceType\<rparr>,
         \<lparr>ServiceID = ''svc-mysql-2'', ServiceType = MySQLServiceType\<rparr>,
         \<lparr>ServiceID = ''svc-pg-1'', ServiceType = PostgreSQLServiceType\<rparr>,
         \<lparr>ServiceID = ''svc-redis-1'', ServiceType = ''redis''\<rparr>],
      locations =
        [\<lparr>location_ID = ''loc-1'', PMMServerConfig = None, PMMClientConfig = None,
          S3Config = Some ''s3://backups''\<rparr>],
      artifacts =
        [\<lparr>artifact_ID = ''/artifact_id/old'', artifact_Name = ''weekly'',
          artifact_Vendor = ''mysql'', artifact_LocationID = ''loc-1'',
          artifact_ServiceID = ''svc-mysql-0'', artifact_DataModel = PhysicalDataModel,
          artifact_Status = SuccessBackupStatus\<rparr>],
      db_configs =
        [(''svc-mysql-1'', ''root@10.0.0.1:3306''), (''svc-mysql-2'', ''root@10.0.0.2:3306'')],
      pmm_agents =
        [\<lparr>AgentID = ''agent-1'', agent_ServiceID = ''svc-mysql-1''\<rparr>,
         \<lparr>AgentID = ''agent-2'', agent_ServiceID = ''svc-mysql-1''\<rparr>,
         \<lparr>AgentID = ''agent-3'', agent_ServiceID = ''svc-pg-1''\<rparr>,
         \<lparr>AgentID = ''agent-4'', agent_ServiceID = ''svc-redis-1''\<rparr>],
      job_results = [],
      restore_history = []\<rparr>"

definition example_uuid :: "nat \<Rightarrow> string" where
  "example_uuid n = ''u'' @ replicate n (CHR ''i'')"

definition healthy_store :: store_env where
  "healthy_store = \<lparr>fault = (\<lambda>op. None), uuid = example_uuid\<rparr>"

definition reachable_agents :: BackupsService where
  "reachable_agents = \<lparr>db = healthy_store, jobsService = (\<lambda>call. None)\<rparr>"

definition unreachable_agents :: BackupsService where
  "unreachable_agents =
     \<lparr>db = healthy_store, jobsService = (\<lambda>call. Some (Errorf ''agent is not connected''))\<rparr>"

text \<open>
  A store that loses its connection at one operation and is healthy at every other, and a
  service on it.
\<close>

definition failing_store :: "store_op \<Rightarrow> store_env" where
  "failing_store op =
     \<lparr>fault = (\<lambda>x. if x = op then Some (StoreFailure ''connection lost'') else None),
      uuid = example_uuid\<rparr>"

definition failing_at :: "store_op \<Rightarrow> BackupsService" where
  "failing_at op = \<lparr>db = failing_store op, jobsService = (\<lambda>call. None)\<rparr>"

section \<open>Properties of the task abstraction\<close>

lemma Data_receiver: "snd (Data t) = t"
  by (cases t) simp_all

lemma Type_receiver: "snd (Type t) = t"
  by (cases t) simp_all

lemma observe_receiver: "observe c t = t"
  by (cases c) (simp_all add: Data_receiver Type_receiver)

lemma ID_SetID: "ID (SetID i t) = i"
  by (cases t) (simp_all add: common_ID_def common_SetID_def)

text \<open>
  C6, as the code has it: \<^verbatim>\<open>SetID\<close> has no guard and cannot fail. Whatever the id of the
  task was before, and however often \<^verbatim>\<open>SetID\<close> was called, the last call decides:
  after \<^verbatim>\<open>SetID(i)\<close>, \<^verbatim>\<open>ID()\<close> is \<open>i\<close>.
\<close>

theorem SetID_overwrites: "ID (SetID i2 (SetID i1 t)) = i2"
  by (cases t) (simp_all add: common_ID_def common_SetID_def)

text \<open>
  C6 as the spec states it fails: a second \<^verbatim>\<open>SetID\<close> on a print task whose id is
  already set replaces the id, and the first id is gone.
\<close>

theorem SetID_twice_counterexample:
  "ID (SetID ''task-2'' (SetID ''task-1'' (NewPrintTask ''hello''))) = ''task-2'' \<and>
   ID (SetID ''task-2'' (SetID ''task-1'' (NewPrintTask ''hello''))) \<noteq> ''task-1''"
  by (simp add: NewPrintTask_def common_ID_def common_SetID_def)

text \<open>
  C7: for every variant and all construction parameters, \<^verbatim>\<open>Data()\<close> returns exactly the
  parameters given to the constructor and leaves the task as it was; and for every task
  (whatever its id), the registry rebuilds from \<^verbatim>\<open>Type()\<close> and \<^verbatim>\<open>Data()\<close> a task whose
  type and data are the same again.
\<close>

theorem Data_snapshot_roundtrip:
  "fst (Data (NewPrintTask message)) =
     \<lparr>Print = Some \<lparr>Message = message\<rparr>, MySQLBackupTask = None, MongoBackupTask = None\<rparr> \<and>
   fst (Data (NewMySQLBackupTask bls serviceID locationID name description)) =
     \<lparr>Print = None,
      MySQLBackupTask = Some \<lparr>mysql_ServiceID = serviceID, mysql_LocationID = locationID,
                               mysql_Name = name, mysql_Description = description\<rparr>,
      MongoBackupTask = None\<rparr> \<and>
   fst (Data (NewMongoBackupTask bls serviceID locationID name description)) =
     \<lparr>Print = None, MySQLBackupTask = None,
      MongoBackupTask = Some \<lparr>mongo_ServiceID = serviceID, mongo_LocationID = locationID,
                               mongo_Name = name, mongo_Description = description\<rparr>\<rparr> \<and>
   snd (Data t) = t \<and>
   fst (Data (SetID i t)) = fst (Data t) \<and>
   (\<exists>t'. reconstruct bls' (fst (Type t)) (fst (Data t)) = Some t' \<and>
         fst (Type t') = fst (Type t) \<and> fst (Data t') = fst (Data t))"
  by (cases t)
     (simp_all add: NewPrintTask_def NewMySQLBackupTask_def NewMongoBackupTask_def)

text \<open>
  C8: after \<^verbatim>\<open>SetID(i)\<close>, any finite sequence of \<^verbatim>\<open>Data()\<close> and \<^verbatim>\<open>Type()\<close> calls leaves
  \<^verbatim>\<open>ID()\<close> equal to \<open>i\<close>.
\<close>

theorem ID_stable_under_observation: "ID (observe_all cs (SetID i t)) = i"
proof (induction cs arbitrary: t)
  case Nil
  show ?case by (simp add: ID_SetID)
next
  case (Cons c cs)
  have "observe_all (c # cs) (SetID i t) = observe_all cs (SetID i t)"
    by (simp add: observe_receiver)
  then show ?case using Cons.IH by simp
qed

section \<open>Properties of the transactional store\<close>

lemma InTransactionContext_Inl:
  "InTransactionContext q d f = (Inl e, d1) \<Longrightarrow> d1 = d"
  by (auto simp: InTransactionContext_def split: option.splits sum.splits)

lemma InTransactionContext_Inr:
  "InTransactionContext q d f = (Inr r, d1) \<Longrightarrow> f d = Inr (r, d1)"
  by (auto simp: InTransactionContext_def split: option.splits sum.splits)

lemma CreateArtifact_Inr:
  assumes "CreateArtifact q tx p = Inr (a, tx1)"
  shows "a = \<lparr>artifact_ID = ''/artifact_id/'' @ uuid q (length (artifacts tx)),
              artifact_Name = cap_Name p, artifact_Vendor = cap_Vendor p,
              artifact_LocationID = cap_LocationID p, artifact_ServiceID = cap_ServiceID p,
              artifact_DataModel = cap_DataModel p, artifact_Status = cap_Status p\<rparr>"
    and "tx1 = tx\<lparr>artifacts := artifacts tx @ [a]\<rparr>"
  using assms by (auto simp: CreateArtifact_def Let_def split: option.splits)

lemma CreateJobResult_Inr:
  assumes "CreateJobResult q tx agentID jobType result = Inr (j, tx1)"
  shows "j = \<lparr>job_ID = ''/job_id/'' @ uuid q (length (job_results tx)),
              PMMAgentID = agentID, job_Type = jobType, job_Result = result\<rparr>"
    and "tx1 = tx\<lparr>job_results := job_results tx @ [j]\<rparr>"
  using assms by (auto simp: CreateJobResult_def Let_def split: option.splits)

lemma CreateRestoreHistoryItem_Inr:
  assumes "CreateRestoreHistoryItem q tx p = Inr (r, tx1)"
  shows "r = \<lparr>restore_ID = ''/restore_id/'' @ uuid q (length (restore_history tx)),
              restore_ArtifactID = crp_ArtifactID p, restore_ServiceID = crp_ServiceID p,
              restore_Status = crp_Status p\<rparr>"
    and "tx1 = tx\<lparr>restore_history := restore_history tx @ [r]\<rparr>"
  using assms by (auto simp: CreateRestoreHistoryItem_def Let_def split: option.splits)

lemma FindDBConfigForService_artifacts:
  "FindDBConfigForService q (tx\<lparr>artifacts := x\<rparr>) i = FindDBConfigForService q tx i"
  by (simp add: FindDBConfigForService_def split: option.splits)

lemma FindPMMAgentsForService_artifacts:
  "FindPMMAgentsForService q (tx\<lparr>artifacts := x\<rparr>) i = FindPMMAgentsForService q tx i"
  by (simp add: FindPMMAgentsForService_def split: option.splits)

section \<open>Properties of StartBackup\<close>

lemma prepareBackupJob_Inr:
  assumes "prepareBackupJob s q svc aid jt = Inr ((job, config), q')"
  shows "FindDBConfigForService (db s) q (ServiceID svc) = Inr config"
    and "\<exists>a as. FindPMMAgentsForService (db s) q (ServiceID svc) = Inr (a # as) \<and>
           job = \<lparr>job_ID = ''/job_id/'' @ uuid (db s) (length (job_results q)),
                  PMMAgentID = AgentID a, job_Type = jt,
                  job_Result = \<lparr>MySQLBackup = Some \<lparr>ArtifactID = aid\<rparr>,
                                MySQLRestoreBackup = None\<rparr>\<rparr>"
    and "q' = q\<lparr>job_results := job_results q @ [job]\<rparr>"
proof -
  from assms obtain agents where
    c: "FindDBConfigForService (db s) q (ServiceID svc) = Inr config" and
    a: "FindPMMAgentsForService (db s) q (ServiceID svc) = Inr agents" and
    n: "length agents \<noteq> 0" and
    j: "CreateJobResult (db s) q (AgentID (agents ! 0)) jt
          \<lparr>MySQLBackup = Some \<lparr>ArtifactID = aid\<rparr>, MySQLRestoreBackup = None\<rparr> = Inr (job, q')"
    by (auto simp: prepareBackupJob_def split: sum.splits if_splits)
  show "FindDBConfigForService (db s) q (ServiceID svc) = Inr config" by (rule c)
  from n obtain a as where as: "agents = a # as" by (cases agents) auto
  with a CreateJobResult_Inr(1)[OF j]
  show "\<exists>a as. FindPMMAgentsForService (db s) q (ServiceID svc) = Inr (a # as) \<and>
           job = \<lparr>job_ID = ''/job_id/'' @ uuid (db s) (length (job_results q)),
                  PMMAgentID = AgentID a, job_Type = jt,
                  job_Result = \<lparr>MySQLBackup = Some \<lparr>ArtifactID = aid\<rparr>,
                                MySQLRestoreBackup = None\<rparr>\<rparr>"
    by auto
  show "q' = q\<lparr>job_results := job_results q @ [job]\<rparr>"
    by (rule CreateJobResult_Inr(2)[OF j])
qed

lemma StartBackup_tx_Inr:
  assumes "StartBackup_tx s req tx = Inr ((svc, location, artifact, job, config), tx2)"
  shows "FindServiceByID (db s) tx (sb_ServiceId req) = Inr svc"
    and "ServiceType svc = MySQLServiceType"
    and "FindBackupLocationByID (db s) tx (sb_LocationId req) = Inr location"
    and "artifact = \<lparr>artifact_ID = ''/artifact_id/'' @ uuid (db s) (length (artifacts tx)),
                     artifact_Name = sb_Name req, artifact_Vendor = ServiceType svc,
                     artifact_LocationID = location_ID location,
                     artifact_ServiceID = ServiceID svc,
                     artifact_DataModel = PhysicalDataModel,
                     artifact_Status = PendingBackupStatus\<rparr>"
    and "FindDBConfigForService (db s) tx (ServiceID svc) = Inr config"
    and "\<exists>a as. FindPMMAgentsForService (db s) tx (ServiceID svc) = Inr (a # as) \<and>
           job = \<lparr>job_ID = ''/job_id/'' @ uuid (db s) (length (job_results tx)),
                  PMMAgentID = AgentID a, job_Type = MySQLBackupJob,
                  job_Result = \<lparr>MySQLBackup = Some \<lparr>ArtifactID = artifact_ID artifact\<rparr>,
                                MySQLRestoreBackup = None\<rparr>\<rparr>"
    and "tx2 = tx\<lparr>artifacts := artifacts tx @ [artifact],
                  job_results := job_results tx @ [job]\<rparr>"
proof -
  from assms obtain tx1 where
    s: "FindServiceByID (db s) tx (sb_ServiceId req) = Inr svc" and
    l: "FindBackupLocationByID (db s) tx (sb_LocationId req) = Inr location" and
    t: "ServiceType svc = MySQLServiceType" and
    a: "CreateArtifact (db s) tx
             \<lparr>cap_Name = sb_Name req,
              cap_Vendor = ServiceType svc,
              cap_LocationID = location_ID location,
              cap_ServiceID = ServiceID svc,
              cap_DataModel = PhysicalDataModel,
              cap_Status = PendingBackupStatus\<rparr> = Inr (artifact, tx1)" and
    p: "prepareBackupJob s tx1 svc (artifact_ID artifact) MySQLBackupJob = Inr ((job, config), tx2)"
    unfolding StartBackup_tx_def by (auto split: sum.splits prod.splits if_splits)
  show "FindServiceByID (db s) tx (sb_ServiceId req) = Inr svc" by (rule s)
  show "FindBackupLocationByID (db s) tx (sb_LocationId req) = Inr location" by (rule l)
  show "ServiceType svc = MySQLServiceType" by (rule t)
  from CreateArtifact_Inr(1)[OF a]
  show "artifact = \<lparr>artifact_ID = ''/artifact_id/'' @ uuid (db s) (length (artifacts tx)),
                     artifact_Name = sb_Name req, artifact_Vendor = ServiceType svc,
                     artifact_LocationID = location_ID location,
                     artifact_ServiceID = ServiceID svc,
                     artifact_DataModel = PhysicalDataModel,
                     artifact_Status = PendingBackupStatus\<rparr>" by simp
  note tx1 = CreateArtifact_Inr(2)[OF a]
  from prepareBackupJob_Inr(1)[OF p] tx1
  show "FindDBConfigForService (db s) tx (ServiceID svc) = Inr config"
    by (simp add: FindDBConfigForService_artifacts)
  from prepareBackupJob_Inr(2)[OF p] tx1
  show "\<exists>a as. FindPMMAgentsForService (db s) tx (ServiceID svc) = Inr (a # as) \<and>
           job = \<lparr>job_ID = ''/job_id/'' @ uuid (db s) (length (job_results tx)),
                  PMMAgentID = AgentID a, job_Type = MySQLBackupJob,
                  job_Result = \<lparr>MySQLBackup = Some \<lparr>ArtifactID = artifact_ID artifact\<rparr>,
                                MySQLRestoreBackup = None\<rparr>\<rparr>"
    by (simp add: FindPMMAgentsForService_artifacts)
  from prepareBackupJob_Inr(3)[OF p] tx1
  show "tx2 = tx\<lparr>artifacts := artifacts tx @ [artifact],
                  job_results := job_results tx @ [job]\<rparr>"
    by simp
qed

lemma StartBackup_tx_succeeds:
  assumes svc: "FindServiceByID (db s) d (sb_ServiceId req) = Inr svc"
    and type: "ServiceType svc = MySQLServiceType"
    and loc: "FindBackupLocationByID (db s) d (sb_LocationId req) = Inr location"
    and cfg: "FindDBConfigForService (db s) d (ServiceID svc) = Inr config"
    and agents: "FindPMMAgentsForService (db s) d (ServiceID svc) = Inr (a # as)"
    and ca: "fault (db s) OpCreateArtifact = None"
    and cj: "fault (db s) OpCreateJobResult = None"
    and artifact: "artifact = \<lparr>artifact_ID = ''/artifact_id/'' @ uuid (db s) (length (artifacts d)),
                     artifact_Name = sb_Name req, artifact_Vendor = ServiceType svc,
                     artifact_LocationID = location_ID location,
                     artifact_ServiceID = ServiceID svc,
                     artifact_DataModel = PhysicalDataModel,
                     artifact_Status = PendingBackupStatus\<rparr>"
    and job: "job = \<lparr>job_ID = ''/job_id/'' @ uuid (db s) (length (job_results d)),
                  PMMAgentID = AgentID a, job_Type = MySQLBackupJob,
                  job_Result = \<lparr>MySQLBackup = Some \<lparr>ArtifactID = artifact_ID artifact\<rparr>,
                                MySQLRestoreBackup = None\<rparr>\<rparr>"
  shows "StartBackup_tx s req d =
           Inr ((svc, location, artifact, job, config),
                d\<lparr>artifacts := artifacts d @ [artifact], job_results := job_results d @ [job]\<rparr>)"
  using assms
  by (simp add: StartBackup_tx_def CreateArtifact_def prepareBackupJob_def CreateJobResult_def
        FindDBConfigForService_artifacts FindPMMAgentsForService_artifacts Let_def)

lemma StartBackup_tx_no_agent:
  assumes svc: "FindServiceByID (db s) d (sb_ServiceId req) = Inr svc"
    and type: "ServiceType svc = MySQLServiceType"
    and loc: "FindBackupLocationByID (db s) d (sb_LocationId req) = Inr location"
    and ca: "fault (db s) OpCreateArtifact = None"
    and cfg: "FindDBConfigForService (db s) d (ServiceID svc) = Inr config"
    and agents: "FindPMMAgentsForService (db s) d (ServiceID svc) = Inr []"
  shows "StartBackup_tx s req d = Inl (Errorf ''pmmAgent not found for service'')"
  using assms
  by (simp add: StartBackup_tx_def CreateArtifact_def prepareBackupJob_def
        FindDBConfigForService_artifacts FindPMMAgentsForService_artifacts Let_def)

lemma StartBackup_tx_unsupported:
  assumes svc: "FindServiceByID (db s) d (sb_ServiceId req) = Inr svc"
    and type: "ServiceType svc \<in> {PostgreSQLServiceType, MongoDBServiceType,
                 ProxySQLServiceType, HAProxyServiceType, ExternalServiceType}"
    and loc: "FindBackupLocationByID (db s) d (sb_LocationId req) = Inr location"
  shows "StartBackup_tx s req d =
           Inl (Status Unimplemented (''unimplemented service: '' @ ServiceType svc))"
proof -
  from type have "ServiceType svc \<noteq> MySQLServiceType"
    by (auto simp: MySQLServiceType_def PostgreSQLServiceType_def MongoDBServiceType_def
          ProxySQLServiceType_def HAProxyServiceType_def ExternalServiceType_def)
  with assms show ?thesis by (auto simp: StartBackup_tx_def)
qed

lemma StartBackup_tx_unknown:
  assumes svc: "FindServiceByID (db s) d (sb_ServiceId req) = Inr svc"
    and type: "ServiceType svc \<notin> {MySQLServiceType, PostgreSQLServiceType, MongoDBServiceType,
                 ProxySQLServiceType, HAProxyServiceType, ExternalServiceType}"
    and loc: "FindBackupLocationByID (db s) d (sb_LocationId req) = Inr location"
  shows "StartBackup_tx s req d =
           Inl (Status Unknown (''unknown service: '' @ ServiceType svc))"
  using assms by (auto simp: StartBackup_tx_def)

lemma StartBackup_tx_failed:
  assumes "InTransactionContext (db s) d (StartBackup_tx s req) = (Inl e, d1)"
  shows "StartBackup s req (d, calls) = (Inl e, (d, calls))"
  using assms InTransactionContext_Inl[OF assms] by (simp add: StartBackup_def)

lemma StartBackup_tx_Inl:
  assumes "fault (db s) OpBegin = None" and "StartBackup_tx s req d = Inl e"
  shows "StartBackup s req (d, calls) = (Inl e, (d, calls))"
  using assms by (simp add: StartBackup_def InTransactionContext_def)

lemma StartBackup_tx_committed:
  assumes "InTransactionContext (db s) d (StartBackup_tx s req) =
             (Inr (svc, location, artifact, job, config), d1)"
  shows "StartBackup s req (d, calls) =
           (case jobsService s (StartMySQLBackupJob (job_ID job) (PMMAgentID job) 0 (sb_Name req)
                                  config (locationConfig_of location)) of
              Some err \<Rightarrow> Inl err
            | None \<Rightarrow> Inr \<lparr>ArtifactId = artifact_ID artifact\<rparr>,
            (d1, calls @ [StartMySQLBackupJob (job_ID job) (PMMAgentID job) 0 (sb_Name req)
                            config (locationConfig_of location)]))"
proof -
  have "ServiceType svc = MySQLServiceType"
    using StartBackup_tx_Inr(2)[OF InTransactionContext_Inr[OF assms]] .
  then show ?thesis
    using assms by (simp add: StartBackup_def Let_def split: option.splits)
qed

section \<open>Properties of RestoreBackup\<close>

lemma prepareRestoreJob_succeeds:
  assumes "FindServiceByID (db s) q serviceID = Inr service"
    and "FindArtifactByID (db s) q artifactID = Inr artifact"
    and "FindBackupLocationByID (db s) q (artifact_LocationID artifact) = Inr location"
    and "FindPMMAgentsForService (db s) q serviceID = Inr (a # as)"
  shows "prepareRestoreJob s q serviceID artifactID =
           Inr \<lparr>prp_AgentID = AgentID a, prp_ArtifactName = artifact_Name artifact,
                 prp_Location = location, prp_ServiceType = ServiceType service\<rparr>"
  using assms by (simp add: prepareRestoreJob_def)

lemma RestoreBackup_tx_Inr:
  assumes "RestoreBackup_tx s req tx = Inr ((params, jobID, restoreID), tx2)"
  shows "prepareRestoreJob s tx (rb_ServiceId req) (rb_ArtifactId req) = Inr params"
    and "restoreID = ''/restore_id/'' @ uuid (db s) (length (restore_history tx))"
    and "jobID = ''/job_id/'' @ uuid (db s) (length (job_results tx))"
    and "tx2 = tx\<lparr>restore_history := restore_history tx @
                     [\<lparr>restore_ID = restoreID, restore_ArtifactID = rb_ArtifactId req,
                       restore_ServiceID = rb_ServiceId req,
                       restore_Status = InProgressRestoreStatus\<rparr>],
                  job_results := job_results tx @
                     [\<lparr>job_ID = jobID, PMMAgentID = prp_AgentID params,
                       job_Type = MySQLRestoreBackupJob,
                       job_Result = \<lparr>MySQLBackup = None,
                                     MySQLRestoreBackup = Some \<lparr>RestoreID = restoreID\<rparr>\<rparr>\<rparr>]\<rparr>"
proof -
  from assms obtain restore tx1 job where
    p: "prepareRestoreJob s tx (rb_ServiceId req) (rb_ArtifactId req) = Inr params" and
    r: "CreateRestoreHistoryItem (db s) tx
             \<lparr>crp_ArtifactID = rb_ArtifactId req, crp_ServiceID = rb_ServiceId req,
              crp_Status = InProgressRestoreStatus\<rparr> = Inr (restore, tx1)" and
    j: "CreateJobResult (db s) tx1 (prp_AgentID params) MySQLRestoreBackupJob
             \<lparr>MySQLBackup = None,
              MySQLRestoreBackup = Some \<lparr>RestoreID = restore_ID restore\<rparr>\<rparr> = Inr (job, tx2)" and
    ids: "jobID = job_ID job" "restoreID = restore_ID restore"
    unfolding RestoreBackup_tx_def by (auto split: sum.splits prod.splits)
  note r1 = CreateRestoreHistoryItem_Inr[OF r]
  note j1 = CreateJobResult_Inr[OF j]
  show "prepareRestoreJob s tx (rb_ServiceId req) (rb_ArtifactId req) = Inr params" by (rule p)
  show rid: "restoreID = ''/restore_id/'' @ uuid (db s) (length (restore_history tx))"
    using ids r1(1) by simp
  show jid: "jobID = ''/job_id/'' @ uuid (db s) (length (job_results tx))"
    using ids j1(1) r1(2) by simp
  have "restore = \<lparr>restore_ID = restoreID, restore_ArtifactID = rb_ArtifactId req,
                       restore_ServiceID = rb_ServiceId req,
                       restore_Status = InProgressRestoreStatus\<rparr>"
    using r1(1) rid by simp
  moreover have "job = \<lparr>job_ID = jobID, PMMAgentID = prp_AgentID params,
                       job_Type = MySQLRestoreBackupJob,
                       job_Result = \<lparr>MySQLBackup = None,
                                     MySQLRestoreBackup = Some \<lparr>RestoreID = restoreID\<rparr>\<rparr>\<rparr>"
    using j1(1) r1(2) jid ids by simp
  ultimately show "tx2 = tx\<lparr>restore_history := restore_history tx @
                     [\<lparr>restore_ID = restoreID, restore_ArtifactID = rb_ArtifactId req,
                       restore_ServiceID = rb_ServiceId req,
                       restore_Status = InProgressRestoreStatus\<rparr>],
                  job_results := job_results tx @
                     [\<lparr>job_ID = jobID, PMMAgentID = prp_AgentID params,
                       job_Type = MySQLRestoreBackupJob,
                       job_Result = \<lparr>MySQLBackup = None,
                                     MySQLRestoreBackup = Some \<lparr>RestoreID = restoreID\<rparr>\<rparr>\<rparr>]\<rparr>"
    using j1(2) r1(2) by simp
qed

lemma RestoreBackup_tx_succeeds:
  assumes "prepareRestoreJob s tx (rb_ServiceId req) (rb_ArtifactId req) = Inr params"
    and "fault (db s) OpCreateRestoreHistoryItem = None"
    and "fault (db s) OpCreateJobResult = None"
    and "restoreID = ''/restore_id/'' @ uuid (db s) (length (restore_history tx))"
    and "jobID = ''/job_id/'' @ uuid (db s) (length (job_results tx))"
  shows "RestoreBackup_tx s req tx =
           Inr ((params, jobID, restoreID),
                tx\<lparr>restore_history := restore_history tx @
                     [\<lparr>restore_ID = restoreID, restore_ArtifactID = rb_ArtifactId req,
                       restore_ServiceID = rb_ServiceId req,
                       restore_Status = InProgressRestoreStatus\<rparr>],
                  job_results := job_results tx @
                     [\<lparr>job_ID = jobID, PMMAgentID = prp_AgentID params,
                       job_Type = MySQLRestoreBackupJob,
                       job_Result = \<lparr>MySQLBackup = None,
                                     MySQLRestoreBackup = Some \<lparr>RestoreID = restoreID\<rparr>\<rparr>\<rparr>]\<rparr>)"
  using assms
  by (simp add: RestoreBackup_tx_def CreateRestoreHistoryItem_def CreateJobResult_def Let_def)

lemma RestoreBackup_tx_failed:
  assumes "InTransactionContext (db s) d (RestoreBackup_tx s req) = (Inl e, d1)"
  shows "RestoreBackup s req (d, calls) = (Inl e, (d, calls))"
  using assms InTransactionContext_Inl[OF assms] by (simp add: RestoreBackup_def)

lemma RestoreBackup_tx_committed:
  assumes "InTransactionContext (db s) d (RestoreBackup_tx s req) =
             (Inr (params, jobID, restoreID), d1)"
  shows "RestoreBackup s req (d, calls) =
           (case fst (startRestoreJob s jobID (rb_ServiceId req) params calls) of
              Some err \<Rightarrow> Inl err
            | None \<Rightarrow> Inr \<lparr>RestoreId = restoreID\<rparr>,
            (d1, snd (startRestoreJob s jobID (rb_ServiceId req) params calls)))"
  using assms by (simp add: RestoreBackup_def split: prod.splits option.splits)

lemma startRestoreJob_MySQL:
  assumes "prp_ServiceType params = MySQLServiceType"
  shows "startRestoreJob s jobID serviceID params calls =
           (jobsService s (StartMySQLRestoreBackupJob jobID (prp_AgentID params) serviceID 0
                             (prp_ArtifactName params) (locationConfig_of (prp_Location params))),
            calls @ [StartMySQLRestoreBackupJob jobID (prp_AgentID params) serviceID 0
                       (prp_ArtifactName params) (locationConfig_of (prp_Location params))])"
  using assms by (simp add: startRestoreJob_def Let_def split: option.splits)

lemma startRestoreJob_unsupported:
  assumes "prp_ServiceType params \<in> {PostgreSQLServiceType, MongoDBServiceType,
                 ProxySQLServiceType, HAProxyServiceType, ExternalServiceType}"
  shows "startRestoreJob s jobID serviceID params calls =
           (Some (Status Unimplemented (''unimplemented service: '' @ prp_ServiceType params)),
            calls)"
proof -
  from assms have "prp_ServiceType params \<noteq> MySQLServiceType"
    by (auto simp: MySQLServiceType_def PostgreSQLServiceType_def MongoDBServiceType_def
          ProxySQLServiceType_def HAProxyServiceType_def ExternalServiceType_def)
  with assms show ?thesis by (auto simp: startRestoreJob_def)
qed

lemma startRestoreJob_unknown:
  assumes "prp_ServiceType params \<notin> {MySQLServiceType, PostgreSQLServiceType, MongoDBServiceType,
                 ProxySQLServiceType, HAProxyServiceType, ExternalServiceType}"
  shows "startRestoreJob s jobID serviceID params calls =
           (Some (Status Unknown (''unknown service: '' @ prp_ServiceType params)), calls)"
  using assms by (auto simp: startRestoreJob_def)

section \<open>The orchestrator on the concrete store\<close>

text \<open>The definitions that evaluate a call on the concrete store.\<close>

lemmas example_defs =
  reachable_agents_def unreachable_agents_def healthy_store_def example_db_def example_uuid_def
  failing_store_def failing_at_def
  MySQLServiceType_def PostgreSQLServiceType_def MongoDBServiceType_def
  ProxySQLServiceType_def HAProxyServiceType_def ExternalServiceType_def

lemmas store_defs =
  FindServiceByID_def FindArtifactByID_def FindBackupLocationByID_def
  FindDBConfigForService_def FindPMMAgentsForService_def
  CreateArtifact_def CreateRestoreHistoryItem_def CreateJobResult_def InTransactionContext_def

section \<open>Starting a backup\<close>



text \<open>
  C3: when the transaction of \<^verbatim>\<open>StartBackup\<close> fails with an error, whatever the cause
  (the begin, any step of the function, or the commit), \<^verbatim>\<open>StartBackup\<close> returns that
  error, the tables are what they were and nothing is dispatched. The causes the spec
  names are such failures: the service or the location is not found (the error of the store
  is returned as it is), the service type is one of the five unsupported ones
  (\<^verbatim>\<open>Unimplemented\<close>) or none of the six known ones (\<^verbatim>\<open>Unknown\<close>), the DB config is not
  found, the service has no agent, or the store fails: at the begin, at the insert of the
  artifact, at the agent lookup, at the insert of the job result or at the commit. From
  the DB config on, the artifact row was already inserted in the transaction, and at the
  commit the job result too; they are gone with the rollback.
\<close>

theorem StartBackup_failure_persists_nothing:
  "(InTransactionContext (db s) d (StartBackup_tx s req) = (Inl e, d1) \<longrightarrow>
      StartBackup s req (d, calls) = (Inl e, (d, calls))) \<and>
   (fault (db s) OpBegin = None \<and>
    FindServiceByID (db s) d (sb_ServiceId req) = Inl e \<longrightarrow>
      StartBackup s req (d, calls) = (Inl e, (d, calls))) \<and>
   (fault (db s) OpBegin = None \<and>
    FindServiceByID (db s) d (sb_ServiceId req) = Inr svc \<and>
    FindBackupLocationByID (db s) d (sb_LocationId req) = Inl e \<longrightarrow>
      StartBackup s req (d, calls) = (Inl e, (d, calls))) \<and>
   (fault (db s) OpBegin = None \<and>
    FindServiceByID (db s) d (sb_ServiceId req) = Inr svc \<and>
    FindBackupLocationByID (db s) d (sb_LocationId req) = Inr location \<and>
    ServiceType svc \<in> {PostgreSQLServiceType, MongoDBServiceType, ProxySQLServiceType,
                        HAProxyServiceType, ExternalServiceType} \<longrightarrow>
      StartBackup s req (d, calls) =
        (Inl (Status Unimplemented (''unimplemented service: '' @ ServiceType svc)), (d, calls))) \<and>
   (fault (db s) OpBegin = None \<and>
    FindServiceByID (db s) d (sb_ServiceId req) = Inr svc \<and>
    FindBackupLocationByID (db s) d (sb_LocationId req) = Inr location \<and>
    ServiceType svc \<notin> {MySQLServiceType, PostgreSQLServiceType, MongoDBServiceType,
                        ProxySQLServiceType, HAProxyServiceType, ExternalServiceType} \<longrightarrow>
      StartBackup s req (d, calls) =
        (Inl (Status Unknown (''unknown service: '' @ ServiceType svc)), (d, calls))) \<and>
   (fault (db s) OpBegin = None \<and>
    FindServiceByID (db s) d (sb_ServiceId req) = Inr svc \<and>
    FindBackupLocationByID (db s) d (sb_LocationId req) = Inr location \<and>
    ServiceType svc = MySQLServiceType \<and>
    fault (db s) OpCreateArtifact = None \<and>
    FindDBConfigForService (db s) d (ServiceID svc) = Inl e \<longrightarrow>
      StartBackup s req (d, calls) = (Inl e, (d, calls))) \<and>
   (fault (db s) OpBegin = None \<and>
    FindServiceByID (db s) d (sb_ServiceId req) = Inr svc \<and>
    FindBackupLocationByID (db s) d (sb_LocationId req) = Inr location \<and>
    ServiceType svc = MySQLServiceType \<and>
    fault (db s) OpCreateArtifact = None \<and>
    FindDBConfigForService (db s) d (ServiceID svc) = Inr config \<and>
    FindPMMAgentsForService (db s) d (ServiceID svc) = Inr [] \<longrightarrow>
      StartBackup s req (d, calls) =
        (Inl (Errorf ''pmmAgent not found for service''), (d, calls))) \<and>
   (fault (db s) OpBegin = Some e \<longrightarrow>
      StartBackup s req (d, calls) = (Inl e, (d, calls))) \<and>
   (fault (db s) OpBegin = None \<and>
    FindServiceByID (db s) d (sb_ServiceId req) = Inr svc \<and>
    FindBackupLocationByID (db s) d (sb_LocationId req) = Inr location \<and>
    ServiceType svc = MySQLServiceType \<and>
    fault (db s) OpCreateArtifact = Some e \<longrightarrow>
      StartBackup s req (d, calls) = (Inl e, (d, calls))) \<and>
   (fault (db s) OpBegin = None \<and>
    FindServiceByID (db s) d (sb_ServiceId req) = Inr svc \<and>
    FindBackupLocationByID (db s) d (sb_LocationId req) = Inr location \<and>
    ServiceType svc = MySQLServiceType \<and>
    fault (db s) OpCreateArtifact = None \<and>
    FindDBConfigForService (db s) d (ServiceID svc) = Inr config \<and>
    FindPMMAgentsForService (db s) d (ServiceID svc) = Inl e \<longrightarrow>
      StartBackup s req (d, calls) = (Inl e, (d, calls))) \<and>
   (fault (db s) OpBegin = None \<and>
    FindServiceByID (db s) d (sb_ServiceId req) = Inr svc \<and>
    FindBackupLocationByID (db s) d (sb_LocationId req) = Inr location \<and>
    ServiceType svc = MySQLServiceType \<and>
    fault (db s) OpCreateArtifact = None \<and>
    FindDBConfigForService (db s) d (ServiceID svc) = Inr config \<and>
    FindPMMAgentsForService (db s) d (ServiceID svc) = Inr (a # as) \<and>
    fault (db s) OpCreateJobResult = Some e \<longrightarrow>
      StartBackup s req (d, calls) = (Inl e, (d, calls))) \<and>
   (fault (db s) OpBegin = None \<and>
    FindServiceByID (db s) d (sb_ServiceId req) = Inr svc \<and>
    FindBackupLocationByID (db s) d (sb_LocationId req) = Inr location \<and>
    ServiceType svc = MySQLServiceType \<and>
    fault (db s) OpCreateArtifact = None \<and>
    FindDBConfigForService (db s) d (ServiceID svc) = Inr config \<and>
    FindPMMAgentsForService (db s) d (ServiceID svc) = Inr (a # as) \<and>
    fault (db s) OpCreateJobResult = None \<and>
    fault (db s) OpCommit = Some e \<longrightarrow>
      StartBackup s req (d, calls) = (Inl e, (d, calls)))"
proof (intro conjI impI; (elim conjE)?)
  assume "InTransactionContext (db s) d (StartBackup_tx s req) = (Inl e, d1)"
  then show "StartBackup s req (d, calls) = (Inl e, (d, calls))"
    by (rule StartBackup_tx_failed)
next
  assume b: "fault (db s) OpBegin = None"
    and "FindServiceByID (db s) d (sb_ServiceId req) = Inl e"
  then have "StartBackup_tx s req d = Inl e" by (simp add: StartBackup_tx_def)
  with b show "StartBackup s req (d, calls) = (Inl e, (d, calls))"
    by (rule StartBackup_tx_Inl)
next
  assume b: "fault (db s) OpBegin = None"
    and "FindServiceByID (db s) d (sb_ServiceId req) = Inr svc"
    and "FindBackupLocationByID (db s) d (sb_LocationId req) = Inl e"
  then have "StartBackup_tx s req d = Inl e" by (simp add: StartBackup_tx_def)
  with b show "StartBackup s req (d, calls) = (Inl e, (d, calls))"
    by (rule StartBackup_tx_Inl)
next
  assume b: "fault (db s) OpBegin = None"
    and h: "FindServiceByID (db s) d (sb_ServiceId req) = Inr svc"
      "ServiceType svc \<in> {PostgreSQLServiceType, MongoDBServiceType, ProxySQLServiceType,
                        HAProxyServiceType, ExternalServiceType}"
      "FindBackupLocationByID (db s) d (sb_LocationId req) = Inr location"
  show "StartBackup s req (d, calls) =
        (Inl (Status Unimplemented (''unimplemented service: '' @ ServiceType svc)), (d, calls))"
    by (rule StartBackup_tx_Inl[OF b StartBackup_tx_unsupported[OF h]])
next
  assume b: "fault (db s) OpBegin = None"
    and h: "FindServiceByID (db s) d (sb_ServiceId req) = Inr svc"
      "ServiceType svc \<notin> {MySQLServiceType, PostgreSQLServiceType, MongoDBServiceType,
                        ProxySQLServiceType, HAProxyServiceType, ExternalServiceType}"
      "FindBackupLocationByID (db s) d (sb_LocationId req) = Inr location"
  show "StartBackup s req (d, calls) =
        (Inl (Status Unknown (''unknown service: '' @ ServiceType svc)), (d, calls))"
    by (rule StartBackup_tx_Inl[OF b StartBackup_tx_unknown[OF h]])
next
  assume b: "fault (db s) OpBegin = None"
    and "FindServiceByID (db s) d (sb_ServiceId req) = Inr svc"
    and "FindBackupLocationByID (db s) d (sb_LocationId req) = Inr location"
    and "ServiceType svc = MySQLServiceType"
    and "fault (db s) OpCreateArtifact = None"
    and "FindDBConfigForService (db s) d (ServiceID svc) = Inl e"
  then have "StartBackup_tx s req d = Inl e"
    by (simp add: StartBackup_tx_def CreateArtifact_def prepareBackupJob_def
          FindDBConfigForService_artifacts Let_def)
  with b show "StartBackup s req (d, calls) = (Inl e, (d, calls))"
    by (rule StartBackup_tx_Inl)
next
  assume b: "fault (db s) OpBegin = None"
    and h: "FindServiceByID (db s) d (sb_ServiceId req) = Inr svc"
      "ServiceType svc = MySQLServiceType"
      "FindBackupLocationByID (db s) d (sb_LocationId req) = Inr location"
      "fault (db s) OpCreateArtifact = None"
      "FindDBConfigForService (db s) d (ServiceID svc) = Inr config"
      "FindPMMAgentsForService (db s) d (ServiceID svc) = Inr []"
  show "StartBackup s req (d, calls) =
        (Inl (Errorf ''pmmAgent not found for service''), (d, calls))"
    by (rule StartBackup_tx_Inl[OF b StartBackup_tx_no_agent[OF h]])
next
  assume "fault (db s) OpBegin = Some e"
  then show "StartBackup s req (d, calls) = (Inl e, (d, calls))"
    by (simp add: StartBackup_def InTransactionContext_def)
next
  assume b: "fault (db s) OpBegin = None"
    and "FindServiceByID (db s) d (sb_ServiceId req) = Inr svc"
    and "FindBackupLocationByID (db s) d (sb_LocationId req) = Inr location"
    and "ServiceType svc = MySQLServiceType"
    and "fault (db s) OpCreateArtifact = Some e"
  then have "StartBackup_tx s req d = Inl e"
    by (simp add: StartBackup_tx_def CreateArtifact_def)
  with b show "StartBackup s req (d, calls) = (Inl e, (d, calls))"
    by (rule StartBackup_tx_Inl)
next
  assume b: "fault (db s) OpBegin = None"
    and "FindServiceByID (db s) d (sb_ServiceId req) = Inr svc"
    and "FindBackupLocationByID (db s) d (sb_LocationId req) = Inr location"
    and "ServiceType svc = MySQLServiceType"
    and "fault (db s) OpCreateArtifact = None"
    and "FindDBConfigForService (db s) d (ServiceID svc) = Inr config"
    and "FindPMMAgentsForService (db s) d (ServiceID svc) = Inl e"
  then have "StartBackup_tx s req d = Inl e"
    by (simp add: StartBackup_tx_def CreateArtifact_def prepareBackupJob_def
          FindDBConfigForService_artifacts FindPMMAgentsForService_artifacts Let_def)
  with b show "StartBackup s req (d, calls) = (Inl e, (d, calls))"
    by (rule StartBackup_tx_Inl)
next
  assume b: "fault (db s) OpBegin = None"
    and "FindServiceByID (db s) d (sb_ServiceId req) = Inr svc"
    and "FindBackupLocationByID (db s) d (sb_LocationId req) = Inr location"
    and "ServiceType svc = MySQLServiceType"
    and "fault (db s) OpCreateArtifact = None"
    and "FindDBConfigForService (db s) d (ServiceID svc) = Inr config"
    and "FindPMMAgentsForService (db s) d (ServiceID svc) = Inr (a # as)"
    and "fault (db s) OpCreateJobResult = Some e"
  then have "StartBackup_tx s req d = Inl e"
    by (simp add: StartBackup_tx_def CreateArtifact_def prepareBackupJob_def CreateJobResult_def
          FindDBConfigForService_artifacts FindPMMAgentsForService_artifacts Let_def)
  with b show "StartBackup s req (d, calls) = (Inl e, (d, calls))"
    by (rule StartBackup_tx_Inl)
next
  assume b: "fault (db s) OpBegin = None"
    and h: "FindServiceByID (db s) d (sb_ServiceId req) = Inr svc"
      "ServiceType svc = MySQLServiceType"
      "FindBackupLocationByID (db s) d (sb_LocationId req) = Inr location"
      "FindDBConfigForService (db s) d (ServiceID svc) = Inr config"
      "FindPMMAgentsForService (db s) d (ServiceID svc) = Inr (a # as)"
      "fault (db s) OpCreateArtifact = None"
      "fault (db s) OpCreateJobResult = None"
    and c: "fault (db s) OpCommit = Some e"
  show "StartBackup s req (d, calls) = (Inl e, (d, calls))"
    using StartBackup_tx_succeeds[OF h refl refl] b c
    by (simp add: StartBackup_def InTransactionContext_def)
qed

text \<open>
  C3 on the concrete store: a MySQL service without agents, a PostgreSQL service, a service
  of an unknown type and a service that does not exist; and the nightly backup of
  \<^verbatim>\<open>svc-mysql-1\<close> on a store that loses its connection at the begin, at the insert of
  the artifact, at the agent lookup, at the insert of the job result (when the artifact is
  already inserted) and at the commit (when both rows are). The tables are the same after
  each.
\<close>

theorem StartBackup_failure_persists_nothing_witness:
  "StartBackup reachable_agents
     \<lparr>sb_ServiceId = ''svc-mysql-2'', sb_LocationId = ''loc-1'', sb_Name = ''nightly''\<rparr>
     (example_db, []) =
     (Inl (Errorf ''pmmAgent not found for service''), (example_db, [])) \<and>
   StartBackup reachable_agents
     \<lparr>sb_ServiceId = ''svc-pg-1'', sb_LocationId = ''loc-1'', sb_Name = ''nightly''\<rparr>
     (example_db, []) =
     (Inl (Status Unimplemented ''unimplemented service: postgresql''), (example_db, [])) \<and>
   StartBackup reachable_agents
     \<lparr>sb_ServiceId = ''svc-redis-1'', sb_LocationId = ''loc-1'', sb_Name = ''nightly''\<rparr>
     (example_db, []) =
     (Inl (Status Unknown ''unknown service: redis''), (example_db, [])) \<and>
   StartBackup reachable_agents
     \<lparr>sb_ServiceId = ''svc-none'', sb_LocationId = ''loc-1'', sb_Name = ''nightly''\<rparr>
     (example_db, []) =
     (Inl (Status NotFound ''Service with ID svc-none not found.''), (example_db, [])) \<and>
   StartBackup (failing_at OpBegin)
     \<lparr>sb_ServiceId = ''svc-mysql-1'', sb_LocationId = ''loc-1'', sb_Name = ''nightly''\<rparr>
     (example_db, []) =
     (Inl (StoreFailure ''connection lost''), (example_db, [])) \<and>
   StartBackup (failing_at OpCreateArtifact)
     \<lparr>sb_ServiceId = ''svc-mysql-1'', sb_LocationId = ''loc-1'', sb_Name = ''nightly''\<rparr>
     (example_db, []) =
     (Inl (StoreFailure ''connection lost''), (example_db, [])) \<and>
   StartBackup (failing_at OpFindPMMAgentsForService)
     \<lparr>sb_ServiceId = ''svc-mysql-1'', sb_LocationId = ''loc-1'', sb_Name = ''nightly''\<rparr>
     (example_db, []) =
     (Inl (StoreFailure ''connection lost''), (example_db, [])) \<and>
   StartBackup (failing_at OpCreateJobResult)
     \<lparr>sb_ServiceId = ''svc-mysql-1'', sb_LocationId = ''loc-1'', sb_Name = ''nightly''\<rparr>
     (example_db, []) =
     (Inl (StoreFailure ''connection lost''), (example_db, [])) \<and>
   StartBackup (failing_at OpCommit)
     \<lparr>sb_ServiceId = ''svc-mysql-1'', sb_LocationId = ''loc-1'', sb_Name = ''nightly''\<rparr>
     (example_db, []) =
     (Inl (StoreFailure ''connection lost''), (example_db, []))"
proof (intro conjI)
  let ?s = reachable_agents
  let ?loc = "\<lparr>location_ID = ''loc-1'', PMMServerConfig = None, PMMClientConfig = None,
               S3Config = Some ''s3://backups''\<rparr>"
  have b: "fault (db ?s) OpBegin = None" "fault (db ?s) OpCreateArtifact = None"
    by (simp_all add: example_defs)
  have loc: "FindBackupLocationByID (db ?s) example_db ''loc-1'' = Inr ?loc"
    by (simp add: FindBackupLocationByID_def example_defs)
  {
    let ?req = "\<lparr>sb_ServiceId = ''svc-mysql-2'', sb_LocationId = ''loc-1'', sb_Name = ''nightly''\<rparr>"
    let ?svc = "\<lparr>ServiceID = ''svc-mysql-2'', ServiceType = MySQLServiceType\<rparr>"
    have svc: "FindServiceByID (db ?s) example_db ''svc-mysql-2'' = Inr ?svc"
      by (simp add: FindServiceByID_def example_defs)
    have cfg: "FindDBConfigForService (db ?s) example_db ''svc-mysql-2'' = Inr ''root@10.0.0.2:3306''"
      by (simp add: FindDBConfigForService_def example_defs)
    have agents: "FindPMMAgentsForService (db ?s) example_db ''svc-mysql-2'' = Inr []"
      by (simp add: FindPMMAgentsForService_def example_defs)
    show "StartBackup ?s ?req (example_db, []) =
            (Inl (Errorf ''pmmAgent not found for service''), (example_db, []))"
      using StartBackup_failure_persists_nothing[where s = "?s" and req = "?req"
          and d = example_db and calls = "[]" and svc = "?svc" and location = "?loc"
          and config = "''root@10.0.0.2:3306''"] b loc svc cfg agents
      by simp
  }
  {
    let ?req = "\<lparr>sb_ServiceId = ''svc-pg-1'', sb_LocationId = ''loc-1'', sb_Name = ''nightly''\<rparr>"
    let ?svc = "\<lparr>ServiceID = ''svc-pg-1'', ServiceType = PostgreSQLServiceType\<rparr>"
    have svc: "FindServiceByID (db ?s) example_db ''svc-pg-1'' = Inr ?svc"
      by (simp add: FindServiceByID_def example_defs)
    have "StartBackup ?s ?req (example_db, []) =
            (Inl (Status Unimplemented (''unimplemented service: '' @ ServiceType ?svc)),
             (example_db, []))"
      using StartBackup_failure_persists_nothing[where s = "?s" and req = "?req"
          and d = example_db and calls = "[]" and svc = "?svc" and location = "?loc"] b loc svc
      by simp
    then show "StartBackup ?s ?req (example_db, []) =
            (Inl (Status Unimplemented ''unimplemented service: postgresql''), (example_db, []))"
      by (simp add: PostgreSQLServiceType_def)
  }
  {
    let ?req = "\<lparr>sb_ServiceId = ''svc-redis-1'', sb_LocationId = ''loc-1'', sb_Name = ''nightly''\<rparr>"
    let ?svc = "\<lparr>ServiceID = ''svc-redis-1'', ServiceType = ''redis''\<rparr>"
    have svc: "FindServiceByID (db ?s) example_db ''svc-redis-1'' = Inr ?svc"
      by (simp add: FindServiceByID_def example_defs)
    have type: "ServiceType ?svc \<notin> {MySQLServiceType, PostgreSQLServiceType, MongoDBServiceType,
                        ProxySQLServiceType, HAProxyServiceType, ExternalServiceType}"
      by (simp add: example_defs)
    show "StartBackup ?s ?req (example_db, []) =
            (Inl (Status Unknown ''unknown service: redis''), (example_db, []))"
      using StartBackup_failure_persists_nothing[where s = "?s" and req = "?req"
          and d = example_db and calls = "[]" and svc = "?svc" and location = "?loc"] b loc svc type
      by simp
  }
  {
    let ?req = "\<lparr>sb_ServiceId = ''svc-none'', sb_LocationId = ''loc-1'', sb_Name = ''nightly''\<rparr>"
    have svc: "FindServiceByID (db ?s) example_db ''svc-none'' =
                 Inl (Status NotFound ''Service with ID svc-none not found.'')"
      by (simp add: FindServiceByID_def example_defs)
    show "StartBackup ?s ?req (example_db, []) =
            (Inl (Status NotFound ''Service with ID svc-none not found.''), (example_db, []))"
      using StartBackup_failure_persists_nothing[where s = "?s" and req = "?req"
          and d = example_db and calls = "[]"
          and e = "Status NotFound ''Service with ID svc-none not found.''"] b svc
      by simp
  }
  let ?req = "\<lparr>sb_ServiceId = ''svc-mysql-1'', sb_LocationId = ''loc-1'', sb_Name = ''nightly''\<rparr>"
  let ?svc = "\<lparr>ServiceID = ''svc-mysql-1'', ServiceType = MySQLServiceType\<rparr>"
  let ?cfg = "''root@10.0.0.1:3306''"
  let ?a = "\<lparr>AgentID = ''agent-1'', agent_ServiceID = ''svc-mysql-1''\<rparr>"
  let ?as = "[\<lparr>AgentID = ''agent-2'', agent_ServiceID = ''svc-mysql-1''\<rparr>]"
  let ?e = "StoreFailure ''connection lost''"
  have type: "ServiceType ?svc = MySQLServiceType" by simp
  {
    let ?f = "failing_at OpBegin"
    have f: "fault (db ?f) OpBegin = Some ?e" by (simp add: example_defs)
    show "StartBackup ?f ?req (example_db, []) = (Inl ?e, (example_db, []))"
      using StartBackup_failure_persists_nothing[where s = "?f" and req = "?req"
          and d = example_db and calls = "[]" and e = "?e"] f
      by simp
  }
  {
    let ?f = "failing_at OpCreateArtifact"
    have f: "fault (db ?f) OpBegin = None" "fault (db ?f) OpCreateArtifact = Some ?e"
      by (simp_all add: example_defs)
    have svc: "FindServiceByID (db ?f) example_db ''svc-mysql-1'' = Inr ?svc"
      by (simp add: FindServiceByID_def example_defs)
    have loc: "FindBackupLocationByID (db ?f) example_db ''loc-1'' = Inr ?loc"
      by (simp add: FindBackupLocationByID_def example_defs)
    show "StartBackup ?f ?req (example_db, []) = (Inl ?e, (example_db, []))"
      using StartBackup_failure_persists_nothing[where s = "?f" and req = "?req"
          and d = example_db and calls = "[]" and e = "?e" and svc = "?svc"
          and location = "?loc"] f svc loc type
      by simp
  }
  {
    let ?f = "failing_at OpFindPMMAgentsForService"
    have f: "fault (db ?f) OpBegin = None" "fault (db ?f) OpCreateArtifact = None"
      by (simp_all add: example_defs)
    have svc: "FindServiceByID (db ?f) example_db ''svc-mysql-1'' = Inr ?svc"
      by (simp add: FindServiceByID_def example_defs)
    have loc: "FindBackupLocationByID (db ?f) example_db ''loc-1'' = Inr ?loc"
      by (simp add: FindBackupLocationByID_def example_defs)
    have cfg: "FindDBConfigForService (db ?f) example_db ''svc-mysql-1'' = Inr ?cfg"
      by (simp add: FindDBConfigForService_def example_defs)
    have agents: "FindPMMAgentsForService (db ?f) example_db ''svc-mysql-1'' = Inl ?e"
      by (simp add: FindPMMAgentsForService_def example_defs)
    show "StartBackup ?f ?req (example_db, []) = (Inl ?e, (example_db, []))"
      using StartBackup_failure_persists_nothing[where s = "?f" and req = "?req"
          and d = example_db and calls = "[]" and e = "?e" and svc = "?svc"
          and location = "?loc" and config = "?cfg"] f svc loc type cfg agents
      by simp
  }
  {
    let ?f = "failing_at OpCreateJobResult"
    have f: "fault (db ?f) OpBegin = None" "fault (db ?f) OpCreateArtifact = None"
      "fault (db ?f) OpCreateJobResult = Some ?e"
      by (simp_all add: example_defs)
    have svc: "FindServiceByID (db ?f) example_db ''svc-mysql-1'' = Inr ?svc"
      by (simp add: FindServiceByID_def example_defs)
    have loc: "FindBackupLocationByID (db ?f) example_db ''loc-1'' = Inr ?loc"
      by (simp add: FindBackupLocationByID_def example_defs)
    have cfg: "FindDBConfigForService (db ?f) example_db ''svc-mysql-1'' = Inr ?cfg"
      by (simp add: FindDBConfigForService_def example_defs)
    have agents: "FindPMMAgentsForService (db ?f) example_db ''svc-mysql-1'' = Inr (?a # ?as)"
      by (simp add: FindPMMAgentsForService_def example_defs)
    show "StartBackup ?f ?req (example_db, []) = (Inl ?e, (example_db, []))"
      using StartBackup_failure_persists_nothing[where s = "?f" and req = "?req"
          and d = example_db and calls = "[]" and e = "?e" and svc = "?svc"
          and location = "?loc" and config = "?cfg" and a = "?a" and as = "?as"]
        f svc loc type cfg agents
      by simp
  }
  {
    let ?f = "failing_at OpCommit"
    have f: "fault (db ?f) OpBegin = None" "fault (db ?f) OpCreateArtifact = None"
      "fault (db ?f) OpCreateJobResult = None" "fault (db ?f) OpCommit = Some ?e"
      by (simp_all add: example_defs)
    have svc: "FindServiceByID (db ?f) example_db ''svc-mysql-1'' = Inr ?svc"
      by (simp add: FindServiceByID_def example_defs)
    have loc: "FindBackupLocationByID (db ?f) example_db ''loc-1'' = Inr ?loc"
      by (simp add: FindBackupLocationByID_def example_defs)
    have cfg: "FindDBConfigForService (db ?f) example_db ''svc-mysql-1'' = Inr ?cfg"
      by (simp add: FindDBConfigForService_def example_defs)
    have agents: "FindPMMAgentsForService (db ?f) example_db ''svc-mysql-1'' = Inr (?a # ?as)"
      by (simp add: FindPMMAgentsForService_def example_defs)
    show "StartBackup ?f ?req (example_db, []) = (Inl ?e, (example_db, []))"
      using StartBackup_failure_persists_nothing[where s = "?f" and req = "?req"
          and d = example_db and calls = "[]" and e = "?e" and svc = "?svc"
          and location = "?loc" and config = "?cfg" and a = "?a" and as = "?as"]
        f svc loc type cfg agents
      by simp
  }
qed

text \<open>
  C4, as the code has it: when the steps before the agent lookup succeed and the service
  has no agent, \<^verbatim>\<open>StartBackup\<close> fails with the explicit error
  \<^verbatim>\<open>"pmmAgent not found for service"\<close> made by \<^verbatim>\<open>errors.Errorf\<close>. The error carries no
  status code of its own, so that its code reads as \<^verbatim>\<open>Unknown\<close>; nothing is persisted
  and nothing is dispatched.
\<close>

theorem StartBackup_no_agent_unclassified:
  assumes "fault (db s) OpBegin = None"
    and "FindServiceByID (db s) d (sb_ServiceId req) = Inr svc"
    and "ServiceType svc = MySQLServiceType"
    and "FindBackupLocationByID (db s) d (sb_LocationId req) = Inr location"
    and "fault (db s) OpCreateArtifact = None"
    and "FindDBConfigForService (db s) d (ServiceID svc) = Inr config"
    and "FindPMMAgentsForService (db s) d (ServiceID svc) = Inr []"
  shows "\<exists>e. StartBackup s req (d, calls) = (Inl e, (d, calls)) \<and>
             e = Errorf ''pmmAgent not found for service'' \<and>
             \<not> is_classified e \<and> status_Code e = Unknown"
  using StartBackup_tx_Inl[OF assms(1) StartBackup_tx_no_agent[OF assms(2-7)]] by simp

text \<open>C4 as amended, on the MySQL service without agents of the concrete store.\<close>

theorem StartBackup_no_agent_unclassified_witness:
  "\<exists>e. StartBackup reachable_agents
          \<lparr>sb_ServiceId = ''svc-mysql-2'', sb_LocationId = ''loc-1'', sb_Name = ''nightly''\<rparr>
          (example_db, []) = (Inl e, (example_db, [])) \<and>
        e = Errorf ''pmmAgent not found for service'' \<and>
        \<not> is_classified e \<and> status_Code e = Unknown"
proof -
  let ?s = reachable_agents
  let ?req = "\<lparr>sb_ServiceId = ''svc-mysql-2'', sb_LocationId = ''loc-1'', sb_Name = ''nightly''\<rparr>"
  let ?svc = "\<lparr>ServiceID = ''svc-mysql-2'', ServiceType = MySQLServiceType\<rparr>"
  let ?loc = "\<lparr>location_ID = ''loc-1'', PMMServerConfig = None, PMMClientConfig = None,
               S3Config = Some ''s3://backups''\<rparr>"
  have b: "fault (db ?s) OpBegin = None" by (simp add: example_defs)
  have svc: "FindServiceByID (db ?s) example_db (sb_ServiceId ?req) = Inr ?svc"
    by (simp add: FindServiceByID_def example_defs)
  have type: "ServiceType ?svc = MySQLServiceType" by simp
  have loc: "FindBackupLocationByID (db ?s) example_db (sb_LocationId ?req) = Inr ?loc"
    by (simp add: FindBackupLocationByID_def example_defs)
  have ca: "fault (db ?s) OpCreateArtifact = None" by (simp add: example_defs)
  have cfg: "FindDBConfigForService (db ?s) example_db (ServiceID ?svc) = Inr ''root@10.0.0.2:3306''"
    by (simp add: FindDBConfigForService_def example_defs)
  have agents: "FindPMMAgentsForService (db ?s) example_db (ServiceID ?svc) = Inr []"
    by (simp add: FindPMMAgentsForService_def example_defs)
  show ?thesis
    by (rule StartBackup_no_agent_unclassified[OF b svc type loc ca cfg agents])
qed

text \<open>
  C4 as the spec states it fails: for the MySQL service without agents the error is not
  classified, and its status code is the one of the generic failure for an unknown service
  type.
\<close>

theorem StartBackup_no_agent_counterexample:
  "fst (StartBackup reachable_agents
          \<lparr>sb_ServiceId = ''svc-mysql-2'', sb_LocationId = ''loc-1'', sb_Name = ''nightly''\<rparr>
          (example_db, [])) = Inl (Errorf ''pmmAgent not found for service'') \<and>
   \<not> is_classified (Errorf ''pmmAgent not found for service'') \<and>
   status_Code (Errorf ''pmmAgent not found for service'') =
     status_Code (Status Unknown ''unknown service: redis'')"
  by (simp add: StartBackup_def StartBackup_tx_def prepareBackupJob_def store_defs example_defs
        Let_def)

section \<open>Dispatch failures\<close>

text \<open>
  C5: when the transaction of \<^verbatim>\<open>StartBackup\<close> or of \<^verbatim>\<open>RestoreBackup\<close> has committed
  and the dispatch call that follows fails, the call returns the error of the dispatch
  collaborator, and the tables are the committed ones: those before the call with the new
  artifact (or restore history item) and the new job result. \<^verbatim>\<open>RestoreBackup\<close> makes a
  dispatch call only for a MySQL service.
\<close>

theorem dispatch_failure_is_returned:
  "(InTransactionContext (db s) d (StartBackup_tx s sreq) =
      (Inr (svc, location, artifact, job, config), d1) \<and>
    jobsService s (StartMySQLBackupJob (job_ID job) (PMMAgentID job) 0 (sb_Name sreq)
                     config (locationConfig_of location)) = Some e \<longrightarrow>
      StartBackup s sreq (d, calls) =
        (Inl e, (d1, calls @ [StartMySQLBackupJob (job_ID job) (PMMAgentID job) 0 (sb_Name sreq)
                                config (locationConfig_of location)])) \<and>
      d1 = d\<lparr>artifacts := artifacts d @ [artifact],
              job_results := job_results d @ [job]\<rparr>) \<and>
   (InTransactionContext (db s) d (RestoreBackup_tx s rreq) =
      (Inr (params, jobID, restoreID), d2) \<and>
    prp_ServiceType params = MySQLServiceType \<and>
    jobsService s (StartMySQLRestoreBackupJob jobID (prp_AgentID params) (rb_ServiceId rreq) 0
                     (prp_ArtifactName params) (locationConfig_of (prp_Location params))) = Some e' \<longrightarrow>
      RestoreBackup s rreq (d, calls) =
        (Inl e', (d2, calls @ [StartMySQLRestoreBackupJob jobID (prp_AgentID params)
                                 (rb_ServiceId rreq) 0 (prp_ArtifactName params)
                                 (locationConfig_of (prp_Location params))])) \<and>
      d2 = d\<lparr>restore_history := restore_history d @
                 [\<lparr>restore_ID = restoreID, restore_ArtifactID = rb_ArtifactId rreq,
                   restore_ServiceID = rb_ServiceId rreq,
                   restore_Status = InProgressRestoreStatus\<rparr>],
              job_results := job_results d @
                 [\<lparr>job_ID = jobID, PMMAgentID = prp_AgentID params,
                   job_Type = MySQLRestoreBackupJob,
                   job_Result = \<lparr>MySQLBackup = None,
                                 MySQLRestoreBackup = Some \<lparr>RestoreID = restoreID\<rparr>\<rparr>\<rparr>]\<rparr>)"
proof (intro conjI impI; (elim conjE)?)
  assume tx: "InTransactionContext (db s) d (StartBackup_tx s sreq) =
      (Inr (svc, location, artifact, job, config), d1)"
    and e: "jobsService s (StartMySQLBackupJob (job_ID job) (PMMAgentID job) 0 (sb_Name sreq)
                     config (locationConfig_of location)) = Some e"
  show "StartBackup s sreq (d, calls) =
        (Inl e, (d1, calls @ [StartMySQLBackupJob (job_ID job) (PMMAgentID job) 0 (sb_Name sreq)
                                config (locationConfig_of location)]))"
    using StartBackup_tx_committed[OF tx, of calls] e by simp
  show "d1 = d\<lparr>artifacts := artifacts d @ [artifact],
              job_results := job_results d @ [job]\<rparr>"
    by (rule StartBackup_tx_Inr(7)[OF InTransactionContext_Inr[OF tx]])
next
  assume tx: "InTransactionContext (db s) d (RestoreBackup_tx s rreq) =
      (Inr (params, jobID, restoreID), d2)"
    and t: "prp_ServiceType params = MySQLServiceType"
    and e: "jobsService s (StartMySQLRestoreBackupJob jobID (prp_AgentID params) (rb_ServiceId rreq) 0
                     (prp_ArtifactName params) (locationConfig_of (prp_Location params))) = Some e'"
  show "RestoreBackup s rreq (d, calls) =
        (Inl e', (d2, calls @ [StartMySQLRestoreBackupJob jobID (prp_AgentID params)
                                 (rb_ServiceId rreq) 0 (prp_ArtifactName params)
                                 (locationConfig_of (prp_Location params))]))"
    using RestoreBackup_tx_committed[OF tx, of calls] e
    by (simp add: startRestoreJob_MySQL[OF t])
  show "d2 = d\<lparr>restore_history := restore_history d @
                 [\<lparr>restore_ID = restoreID, restore_ArtifactID = rb_ArtifactId rreq,
                   restore_ServiceID = rb_ServiceId rreq,
                   restore_Status = InProgressRestoreStatus\<rparr>],
              job_results := job_results d @
                 [\<lparr>job_ID = jobID, PMMAgentID = prp_AgentID params,
                   job_Type = MySQLRestoreBackupJob,
                   job_Result = \<lparr>MySQLBackup = None,
                                 MySQLRestoreBackup = Some \<lparr>RestoreID = restoreID\<rparr>\<rparr>\<rparr>]\<rparr>"
    by (rule RestoreBackup_tx_Inr(4)[OF InTransactionContext_Inr[OF tx]])
qed

text \<open>
  C5 on the concrete store: a backup and a restore of \<^verbatim>\<open>svc-mysql-1\<close> while no agent is
  connected.
\<close>

theorem dispatch_failure_is_returned_witness:
  "StartBackup unreachable_agents
     \<lparr>sb_ServiceId = ''svc-mysql-1'', sb_LocationId = ''loc-1'', sb_Name = ''nightly''\<rparr>
     (example_db, []) =
     (Inl (Errorf ''agent is not connected''),
      (example_db
         \<lparr>artifacts := artifacts example_db @
            [\<lparr>artifact_ID = ''/artifact_id/ui'', artifact_Name = ''nightly'',
              artifact_Vendor = ''mysql'', artifact_LocationID = ''loc-1'',
              artifact_ServiceID = ''svc-mysql-1'', artifact_DataModel = PhysicalDataModel,
              artifact_Status = PendingBackupStatus\<rparr>],
          job_results :=
            [\<lparr>job_ID = ''/job_id/u'', PMMAgentID = ''agent-1'', job_Type = MySQLBackupJob,
              job_Result = \<lparr>MySQLBackup = Some \<lparr>ArtifactID = ''/artifact_id/ui''\<rparr>,
                            MySQLRestoreBackup = None\<rparr>\<rparr>]\<rparr>,
       [StartMySQLBackupJob ''/job_id/u'' ''agent-1'' 0 ''nightly'' ''root@10.0.0.1:3306''
          \<lparr>cfg_PMMServerConfig = None, cfg_PMMClientConfig = None,
           cfg_S3Config = Some ''s3://backups''\<rparr>])) \<and>
   RestoreBackup unreachable_agents
     \<lparr>rb_ServiceId = ''svc-mysql-1'', rb_ArtifactId = ''/artifact_id/old''\<rparr>
     (example_db, []) =
     (Inl (Errorf ''agent is not connected''),
      (example_db
         \<lparr>restore_history :=
            [\<lparr>restore_ID = ''/restore_id/u'', restore_ArtifactID = ''/artifact_id/old'',
              restore_ServiceID = ''svc-mysql-1'', restore_Status = InProgressRestoreStatus\<rparr>],
          job_results :=
            [\<lparr>job_ID = ''/job_id/u'', PMMAgentID = ''agent-1'',
              job_Type = MySQLRestoreBackupJob,
              job_Result = \<lparr>MySQLBackup = None,
                            MySQLRestoreBackup = Some \<lparr>RestoreID = ''/restore_id/u''\<rparr>\<rparr>\<rparr>]\<rparr>,
       [StartMySQLRestoreBackupJob ''/job_id/u'' ''agent-1'' ''svc-mysql-1'' 0 ''weekly''
          \<lparr>cfg_PMMServerConfig = None, cfg_PMMClientConfig = None,
           cfg_S3Config = Some ''s3://backups''\<rparr>]))"
proof (intro conjI)
  let ?s = unreachable_agents
  let ?loc = "\<lparr>location_ID = ''loc-1'', PMMServerConfig = None, PMMClientConfig = None,
               S3Config = Some ''s3://backups''\<rparr>"
  let ?e = "Errorf ''agent is not connected''"
  {
    let ?req = "\<lparr>sb_ServiceId = ''svc-mysql-1'', sb_LocationId = ''loc-1'', sb_Name = ''nightly''\<rparr>"
    let ?svc = "\<lparr>ServiceID = ''svc-mysql-1'', ServiceType = MySQLServiceType\<rparr>"
    let ?artifact = "\<lparr>artifact_ID = ''/artifact_id/ui'', artifact_Name = ''nightly'',
              artifact_Vendor = ''mysql'', artifact_LocationID = ''loc-1'',
              artifact_ServiceID = ''svc-mysql-1'', artifact_DataModel = PhysicalDataModel,
              artifact_Status = PendingBackupStatus\<rparr>"
    let ?job = "\<lparr>job_ID = ''/job_id/u'', PMMAgentID = ''agent-1'', job_Type = MySQLBackupJob,
              job_Result = \<lparr>MySQLBackup = Some \<lparr>ArtifactID = ''/artifact_id/ui''\<rparr>,
                            MySQLRestoreBackup = None\<rparr>\<rparr>"
    let ?d1 = "example_db\<lparr>artifacts := artifacts example_db @ [?artifact], job_results := [?job]\<rparr>"
    have tx: "InTransactionContext (db ?s) example_db (StartBackup_tx ?s ?req) =
                (Inr (?svc, ?loc, ?artifact, ?job, ''root@10.0.0.1:3306''), ?d1)"
      by (simp add: StartBackup_tx_def prepareBackupJob_def store_defs example_defs Let_def)
    have e: "jobsService ?s (StartMySQLBackupJob (job_ID ?job) (PMMAgentID ?job) 0 (sb_Name ?req)
                     ''root@10.0.0.1:3306'' (locationConfig_of ?loc)) = Some ?e"
      by (simp add: example_defs)
    show "StartBackup ?s ?req (example_db, []) =
            (Inl ?e, (?d1, [StartMySQLBackupJob ''/job_id/u'' ''agent-1'' 0 ''nightly''
                              ''root@10.0.0.1:3306''
          \<lparr>cfg_PMMServerConfig = None, cfg_PMMClientConfig = None,
           cfg_S3Config = Some ''s3://backups''\<rparr>]))"
      using dispatch_failure_is_returned[where s = "?s" and sreq = "?req" and d = example_db
          and calls = "[]" and svc = "?svc" and location = "?loc" and artifact = "?artifact"
          and job = "?job" and config = "''root@10.0.0.1:3306''" and ?d1.0 = "?d1" and e = "?e"]
        tx e
      by simp
  }
  {
    let ?req = "\<lparr>rb_ServiceId = ''svc-mysql-1'', rb_ArtifactId = ''/artifact_id/old''\<rparr>"
    let ?params = "\<lparr>prp_AgentID = ''agent-1'', prp_ArtifactName = ''weekly'',
                     prp_Location = ?loc, prp_ServiceType = MySQLServiceType\<rparr>"
    let ?d2 = "example_db
         \<lparr>restore_history :=
            [\<lparr>restore_ID = ''/restore_id/u'', restore_ArtifactID = ''/artifact_id/old'',
              restore_ServiceID = ''svc-mysql-1'', restore_Status = InProgressRestoreStatus\<rparr>],
          job_results :=
            [\<lparr>job_ID = ''/job_id/u'', PMMAgentID = ''agent-1'',
              job_Type = MySQLRestoreBackupJob,
              job_Result = \<lparr>MySQLBackup = None,
                            MySQLRestoreBackup = Some \<lparr>RestoreID = ''/restore_id/u''\<rparr>\<rparr>\<rparr>]\<rparr>"
    have tx: "InTransactionContext (db ?s) example_db (RestoreBackup_tx ?s ?req) =
                (Inr (?params, ''/job_id/u'', ''/restore_id/u''), ?d2)"
      by (simp add: RestoreBackup_tx_def prepareRestoreJob_def store_defs example_defs Let_def)
    have t: "prp_ServiceType ?params = MySQLServiceType" by simp
    have e: "jobsService ?s (StartMySQLRestoreBackupJob ''/job_id/u'' (prp_AgentID ?params)
                     (rb_ServiceId ?req) 0 (prp_ArtifactName ?params)
                     (locationConfig_of (prp_Location ?params))) = Some ?e"
      by (simp add: example_defs)
    show "RestoreBackup ?s ?req (example_db, []) =
            (Inl ?e, (?d2, [StartMySQLRestoreBackupJob ''/job_id/u'' ''agent-1'' ''svc-mysql-1'' 0
                              ''weekly''
          \<lparr>cfg_PMMServerConfig = None, cfg_PMMClientConfig = None,
           cfg_S3Config = Some ''s3://backups''\<rparr>]))"
      using dispatch_failure_is_returned[where s = "?s" and rreq = "?req" and d = example_db
          and calls = "[]" and params = "?params" and jobID = "''/job_id/u''"
          and restoreID = "''/restore_id/u''" and ?d2.0 = "?d2" and e' = "?e"]
        tx t e
      by simp
  }
qed

section \<open>Restoring a backup\<close>

text \<open>
  C1 does not hold of the code. \<^verbatim>\<open>RestoreBackup\<close> looks at the service type only in
  \<^verbatim>\<open>startRestoreJob\<close>, after its transaction has committed: for the PostgreSQL service
  of the concrete store it returns \<^verbatim>\<open>Unimplemented\<close>, and the restore history item and
  the job result it has inserted remain. \<^verbatim>\<open>StartBackup\<close> rejects the same service inside
  its transaction and leaves the tables as they were.
\<close>

theorem RestoreBackup_unsupported_rows_remain:
  "RestoreBackup reachable_agents
     \<lparr>rb_ServiceId = ''svc-pg-1'', rb_ArtifactId = ''/artifact_id/old''\<rparr> (example_db, []) =
     (Inl (Status Unimplemented ''unimplemented service: postgresql''),
      (example_db
         \<lparr>restore_history :=
            [\<lparr>restore_ID = ''/restore_id/u'', restore_ArtifactID = ''/artifact_id/old'',
              restore_ServiceID = ''svc-pg-1'', restore_Status = InProgressRestoreStatus\<rparr>],
          job_results :=
            [\<lparr>job_ID = ''/job_id/u'', PMMAgentID = ''agent-3'',
              job_Type = MySQLRestoreBackupJob,
              job_Result = \<lparr>MySQLBackup = None,
                            MySQLRestoreBackup = Some \<lparr>RestoreID = ''/restore_id/u''\<rparr>\<rparr>\<rparr>]\<rparr>,
       [])) \<and>
   StartBackup reachable_agents
     \<lparr>sb_ServiceId = ''svc-pg-1'', sb_LocationId = ''loc-1'', sb_Name = ''nightly''\<rparr>
     (example_db, []) =
     (Inl (Status Unimplemented ''unimplemented service: postgresql''), (example_db, []))"
  by (simp add: RestoreBackup_def RestoreBackup_tx_def InTransactionContext_def
        prepareRestoreJob_def startRestoreJob_def StartBackup_def StartBackup_tx_def
        FindServiceByID_def FindArtifactByID_def FindBackupLocationByID_def
        FindPMMAgentsForService_def CreateRestoreHistoryItem_def CreateJobResult_def
        reachable_agents_def healthy_store_def example_db_def example_uuid_def
        MySQLServiceType_def PostgreSQLServiceType_def MongoDBServiceType_def
        ProxySQLServiceType_def HAProxyServiceType_def ExternalServiceType_def Let_def)

text \<open>
  C10, as the code has it: a \<^verbatim>\<open>RestoreBackup\<close> call on a MySQL service that exists and has
  an agent, for an artifact that exists with its location, in a store that accepts the two
  inserts and the commit, creates the restore history item and the job result and
  dispatches the restore to the first agent with the stored name of the artifact and the
  configurations of its location. Nothing relates the artifact to the service: neither the
  service nor the vendor recorded in the artifact is read.
\<close>

theorem RestoreBackup_no_compatibility_check:
  assumes svc: "FindServiceByID (db s) d (rb_ServiceId req) = Inr service"
    and type: "ServiceType service = MySQLServiceType"
    and art: "FindArtifactByID (db s) d (rb_ArtifactId req) = Inr artifact"
    and loc: "FindBackupLocationByID (db s) d (artifact_LocationID artifact) = Inr location"
    and agents: "FindPMMAgentsForService (db s) d (rb_ServiceId req) = Inr (a # as)"
    and store: "fault (db s) OpBegin = None" "fault (db s) OpCreateRestoreHistoryItem = None"
               "fault (db s) OpCreateJobResult = None" "fault (db s) OpCommit = None"
  shows "\<exists>item job.
           item = \<lparr>restore_ID = ''/restore_id/'' @ uuid (db s) (length (restore_history d)),
                   restore_ArtifactID = rb_ArtifactId req,
                   restore_ServiceID = rb_ServiceId req,
                   restore_Status = InProgressRestoreStatus\<rparr> \<and>
           job = \<lparr>job_ID = ''/job_id/'' @ uuid (db s) (length (job_results d)),
                  PMMAgentID = AgentID a, job_Type = MySQLRestoreBackupJob,
                  job_Result = \<lparr>MySQLBackup = None,
                                MySQLRestoreBackup = Some \<lparr>RestoreID = restore_ID item\<rparr>\<rparr>\<rparr> \<and>
           RestoreBackup s req (d, calls) =
             (case jobsService s (StartMySQLRestoreBackupJob (job_ID job) (AgentID a)
                                    (rb_ServiceId req) 0 (artifact_Name artifact)
                                    (locationConfig_of location)) of
                Some err \<Rightarrow> Inl err
              | None \<Rightarrow> Inr \<lparr>RestoreId = restore_ID item\<rparr>,
              (d\<lparr>restore_history := restore_history d @ [item],
                 job_results := job_results d @ [job]\<rparr>,
               calls @ [StartMySQLRestoreBackupJob (job_ID job) (AgentID a) (rb_ServiceId req) 0
                          (artifact_Name artifact) (locationConfig_of location)]))"
proof -
  define params where
    "params = \<lparr>prp_AgentID = AgentID a, prp_ArtifactName = artifact_Name artifact,
                 prp_Location = location, prp_ServiceType = ServiceType service\<rparr>"
  define restoreID where "restoreID = ''/restore_id/'' @ uuid (db s) (length (restore_history d))"
  define jobID where "jobID = ''/job_id/'' @ uuid (db s) (length (job_results d))"
  have p: "prepareRestoreJob s d (rb_ServiceId req) (rb_ArtifactId req) = Inr params"
    unfolding params_def by (rule prepareRestoreJob_succeeds[OF svc art loc agents])
  have t: "prp_ServiceType params = MySQLServiceType" using type by (simp add: params_def)
  have tx: "InTransactionContext (db s) d (RestoreBackup_tx s req) =
          (Inr (params, jobID, restoreID),
           d\<lparr>restore_history := restore_history d @
                     [\<lparr>restore_ID = restoreID, restore_ArtifactID = rb_ArtifactId req,
                       restore_ServiceID = rb_ServiceId req,
                       restore_Status = InProgressRestoreStatus\<rparr>],
                  job_results := job_results d @
                     [\<lparr>job_ID = jobID, PMMAgentID = prp_AgentID params,
                       job_Type = MySQLRestoreBackupJob,
                       job_Result = \<lparr>MySQLBackup = None,
                                     MySQLRestoreBackup = Some \<lparr>RestoreID = restoreID\<rparr>\<rparr>\<rparr>]\<rparr>)"
    using RestoreBackup_tx_succeeds[OF p store(2) store(3) restoreID_def jobID_def] store(1) store(4)
    by (simp add: InTransactionContext_def)
  have "RestoreBackup s req (d, calls) =
          (case jobsService s (StartMySQLRestoreBackupJob jobID (prp_AgentID params)
                                 (rb_ServiceId req) 0 (prp_ArtifactName params)
                                 (locationConfig_of (prp_Location params))) of
             Some err \<Rightarrow> Inl err
           | None \<Rightarrow> Inr \<lparr>RestoreId = restoreID\<rparr>,
           (d\<lparr>restore_history := restore_history d @
                     [\<lparr>restore_ID = restoreID, restore_ArtifactID = rb_ArtifactId req,
                       restore_ServiceID = rb_ServiceId req,
                       restore_Status = InProgressRestoreStatus\<rparr>],
                  job_results := job_results d @
                     [\<lparr>job_ID = jobID, PMMAgentID = prp_AgentID params,
                       job_Type = MySQLRestoreBackupJob,
                       job_Result = \<lparr>MySQLBackup = None,
                                     MySQLRestoreBackup = Some \<lparr>RestoreID = restoreID\<rparr>\<rparr>\<rparr>]\<rparr>,
            calls @ [StartMySQLRestoreBackupJob jobID (prp_AgentID params) (rb_ServiceId req) 0
                       (prp_ArtifactName params) (locationConfig_of (prp_Location params))]))"
    using RestoreBackup_tx_committed[OF tx, of calls]
    by (simp add: startRestoreJob_MySQL[OF t])
  then show ?thesis
    unfolding params_def restoreID_def jobID_def by (simp cong: option.case_cong)
qed

text \<open>
  C10 as amended, on the concrete store: the artifact was taken from \<^verbatim>\<open>svc-mysql-0\<close> and
  is restored to \<^verbatim>\<open>svc-mysql-1\<close>.
\<close>

theorem RestoreBackup_no_compatibility_check_witness:
  "artifact_ServiceID (hd (artifacts example_db)) \<noteq> ''svc-mysql-1'' \<and>
   RestoreBackup reachable_agents
     \<lparr>rb_ServiceId = ''svc-mysql-1'', rb_ArtifactId = ''/artifact_id/old''\<rparr>
     (example_db, []) =
     (Inr \<lparr>RestoreId = ''/restore_id/u''\<rparr>,
      (example_db
         \<lparr>restore_history :=
            [\<lparr>restore_ID = ''/restore_id/u'', restore_ArtifactID = ''/artifact_id/old'',
              restore_ServiceID = ''svc-mysql-1'', restore_Status = InProgressRestoreStatus\<rparr>],
          job_results :=
            [\<lparr>job_ID = ''/job_id/u'', PMMAgentID = ''agent-1'',
              job_Type = MySQLRestoreBackupJob,
              job_Result = \<lparr>MySQLBackup = None,
                            MySQLRestoreBackup = Some \<lparr>RestoreID = ''/restore_id/u''\<rparr>\<rparr>\<rparr>]\<rparr>,
       [StartMySQLRestoreBackupJob ''/job_id/u'' ''agent-1'' ''svc-mysql-1'' 0 ''weekly''
          \<lparr>cfg_PMMServerConfig = None, cfg_PMMClientConfig = None,
           cfg_S3Config = Some ''s3://backups''\<rparr>]))"
proof
  show "artifact_ServiceID (hd (artifacts example_db)) \<noteq> ''svc-mysql-1''"
    by (simp add: example_db_def)
next
  let ?s = reachable_agents
  let ?req = "\<lparr>rb_ServiceId = ''svc-mysql-1'', rb_ArtifactId = ''/artifact_id/old''\<rparr>"
  let ?svc = "\<lparr>ServiceID = ''svc-mysql-1'', ServiceType = MySQLServiceType\<rparr>"
  let ?loc = "\<lparr>location_ID = ''loc-1'', PMMServerConfig = None, PMMClientConfig = None,
               S3Config = Some ''s3://backups''\<rparr>"
  let ?art = "\<lparr>artifact_ID = ''/artifact_id/old'', artifact_Name = ''weekly'',
          artifact_Vendor = ''mysql'', artifact_LocationID = ''loc-1'',
          artifact_ServiceID = ''svc-mysql-0'', artifact_DataModel = PhysicalDataModel,
          artifact_Status = SuccessBackupStatus\<rparr>"
  let ?a = "\<lparr>AgentID = ''agent-1'', agent_ServiceID = ''svc-mysql-1''\<rparr>"
  let ?as = "[\<lparr>AgentID = ''agent-2'', agent_ServiceID = ''svc-mysql-1''\<rparr>]"
  have svc: "FindServiceByID (db ?s) example_db (rb_ServiceId ?req) = Inr ?svc"
    by (simp add: FindServiceByID_def example_defs)
  have type: "ServiceType ?svc = MySQLServiceType" by simp
  have art: "FindArtifactByID (db ?s) example_db (rb_ArtifactId ?req) = Inr ?art"
    by (simp add: FindArtifactByID_def example_defs)
  have loc: "FindBackupLocationByID (db ?s) example_db (artifact_LocationID ?art) = Inr ?loc"
    by (simp add: FindBackupLocationByID_def example_defs)
  have agents: "FindPMMAgentsForService (db ?s) example_db (rb_ServiceId ?req) = Inr (?a # ?as)"
    by (simp add: FindPMMAgentsForService_def example_defs)
  have store: "fault (db ?s) OpBegin = None" "fault (db ?s) OpCreateRestoreHistoryItem = None"
    "fault (db ?s) OpCreateJobResult = None" "fault (db ?s) OpCommit = None"
    by (simp_all add: example_defs)
  have ok: "jobsService ?s c = None" for c by (simp add: example_defs)
  show "RestoreBackup ?s ?req (example_db, []) =
     (Inr \<lparr>RestoreId = ''/restore_id/u''\<rparr>,
      (example_db
         \<lparr>restore_history :=
            [\<lparr>restore_ID = ''/restore_id/u'', restore_ArtifactID = ''/artifact_id/old'',
              restore_ServiceID = ''svc-mysql-1'', restore_Status = InProgressRestoreStatus\<rparr>],
          job_results :=
            [\<lparr>job_ID = ''/job_id/u'', PMMAgentID = ''agent-1'',
              job_Type = MySQLRestoreBackupJob,
              job_Result = \<lparr>MySQLBackup = None,
                            MySQLRestoreBackup = Some \<lparr>RestoreID = ''/restore_id/u''\<rparr>\<rparr>\<rparr>]\<rparr>,
       [StartMySQLRestoreBackupJob ''/job_id/u'' ''agent-1'' ''svc-mysql-1'' 0 ''weekly''
          \<lparr>cfg_PMMServerConfig = None, cfg_PMMClientConfig = None,
           cfg_S3Config = Some ''s3://backups''\<rparr>]))"
    using RestoreBackup_no_compatibility_check[OF svc type art loc agents store, of "[]"] ok
    by (simp add: example_defs)
qed

text \<open>
  C10 as stated fails: the service \<^verbatim>\<open>svc-redis-1\<close> exists and has an agent, the artifact
  and its location exist, and \<^verbatim>\<open>RestoreBackup\<close> dispatches nothing and returns
  \<^verbatim>\<open>Unknown\<close>.
\<close>

theorem RestoreBackup_not_dispatched_counterexample:
  "FindServiceByID (db reachable_agents) example_db ''svc-redis-1'' =
     Inr \<lparr>ServiceID = ''svc-redis-1'', ServiceType = ''redis''\<rparr> \<and>
   FindPMMAgentsForService (db reachable_agents) example_db ''svc-redis-1'' =
     Inr [\<lparr>AgentID = ''agent-4'', agent_ServiceID = ''svc-redis-1''\<rparr>] \<and>
   FindArtifactByID (db reachable_agents) example_db ''/artifact_id/old'' =
     Inr (hd (artifacts example_db)) \<and>
   FindBackupLocationByID (db reachable_agents) example_db ''loc-1'' =
     Inr (hd (locations example_db)) \<and>
   fst (RestoreBackup reachable_agents
     \<lparr>rb_ServiceId = ''svc-redis-1'', rb_ArtifactId = ''/artifact_id/old''\<rparr> (example_db, [])) =
     Inl (Status Unknown ''unknown service: redis'') \<and>
   snd (snd (RestoreBackup reachable_agents
     \<lparr>rb_ServiceId = ''svc-redis-1'', rb_ArtifactId = ''/artifact_id/old''\<rparr> (example_db, []))) = []"
  by (simp add: RestoreBackup_def RestoreBackup_tx_def InTransactionContext_def
        prepareRestoreJob_def startRestoreJob_def
        FindServiceByID_def FindArtifactByID_def FindBackupLocationByID_def
        FindPMMAgentsForService_def CreateRestoreHistoryItem_def CreateJobResult_def
        reachable_agents_def healthy_store_def example_db_def example_uuid_def
        MySQLServiceType_def PostgreSQLServiceType_def MongoDBServiceType_def
        ProxySQLServiceType_def HAProxyServiceType_def ExternalServiceType_def Let_def)

end
